theory Spec2Isabelle
  imports Main
begin

section \<open>JavaScript values\<close>

text \<open>
  The connector is JavaScript: every field, argument and provider answer is an untyped
  value. The model keeps the constructors the connector distinguishes: \<open>undefined\<close>,
  \<open>null\<close>, booleans, (integer) numbers, strings, arrays, plain data objects (a list of
  own properties, the first binding of a key being its value) and functions (an
  identifier, interpreted by the environment when the function is called). Numbers that
  are not integers and strings outside ASCII are not represented.
\<close>

datatype jsval =
    JUndefined
  | JNull
  | JBool bool
  | JNum int
  | JStr string
  | JArr "jsval list"
  | JObj "(string \<times> jsval) list"
  | JFun nat

text \<open>A call either returns a value or throws one (for an \<open>async\<close> function: the promise
  is fulfilled with the operand of \<open>return\<close>, or rejected).\<close>

datatype 'a outcome = Returned 'a | Threw jsval

definition TypeError :: jsval where
  "TypeError = JObj [(''name'', JStr ''TypeError'')]"

text \<open>\<open>v === null || v === undefined\<close>\<close>

definition nullish :: "jsval \<Rightarrow> bool" where
  "nullish v = (v = JNull \<or> v = JUndefined)"

text \<open>\<open>a ?? b\<close>\<close>

definition coalesce :: "jsval \<Rightarrow> jsval \<Rightarrow> jsval" where
  "coalesce a b = (if nullish a then b else a)"

text \<open>A default parameter \<open>(p = d)\<close>: the default replaces \<open>undefined\<close> only.\<close>

definition default_param :: "jsval \<Rightarrow> jsval \<Rightarrow> jsval" where
  "default_param v d = (if v = JUndefined then d else v)"

text \<open>Truthiness, as \<open>if (v)\<close> tests it.\<close>

fun truthy :: "jsval \<Rightarrow> bool" where
  "truthy JUndefined = False"
| "truthy JNull = False"
| "truthy (JBool b) = b"
| "truthy (JNum n) = (n \<noteq> 0)"
| "truthy (JStr s) = (s \<noteq> [])"
| "truthy (JArr xs) = True"
| "truthy (JObj kvs) = True"
| "truthy (JFun f) = True"

text \<open>\<open>typeof v === 'function'\<close>, \<open>Array.isArray(v)\<close>\<close>

fun is_function :: "jsval \<Rightarrow> bool" where
  "is_function (JFun f) = True"
| "is_function v = False"

fun isArray :: "jsval \<Rightarrow> bool" where
  "isArray (JArr xs) = True"
| "isArray v = False"

fun is_object :: "jsval \<Rightarrow> bool" where
  "is_object (JObj kvs) = True"
| "is_object v = False"

text \<open>\<open>v?.k\<close> for the property names the connector reads (\<open>chain_id\<close>, \<open>info\<close>,
  \<open>code\<close>, ...): a data object gives its property, every other value \<open>undefined\<close>.\<close>

fun opt_prop :: "jsval \<Rightarrow> string \<Rightarrow> jsval" where
  "opt_prop (JObj kvs) k = (case map_of kvs k of None \<Rightarrow> JUndefined | Some v \<Rightarrow> v)"
| "opt_prop v k = JUndefined"

text \<open>\<open>v.k\<close> and \<open>v[k]\<close>: a TypeError on \<open>null\<close> and \<open>undefined\<close>.\<close>

definition get_prop :: "jsval \<Rightarrow> string \<Rightarrow> jsval outcome" where
  "get_prop v k = (if nullish v then Threw TypeError else Returned (opt_prop v k))"

text \<open>\<open>a === b\<close> where one side is a primitive: objects and arrays are compared by
  reference, and a stored number or \<open>undefined\<close> is never the same reference.\<close>

fun strict_eq :: "jsval \<Rightarrow> jsval \<Rightarrow> bool" where
  "strict_eq (JArr xs) b = False"
| "strict_eq (JObj kvs) b = False"
| "strict_eq a b = (a = b)"

text \<open>\<open>s.toUpperCase()\<close> on ASCII strings.\<close>

definition upper_char :: "char \<Rightarrow> char" where
  "upper_char c =
     (case map_of (zip ''abcdefghijklmnopqrstuvwxyz'' ''ABCDEFGHIJKLMNOPQRSTUVWXYZ'') c of
        Some u \<Rightarrow> u
      | None \<Rightarrow> c)"

text \<open>\<open>v.toUpperCase()\<close>: only a string has the method.\<close>

fun toUpperCase :: "jsval \<Rightarrow> string outcome" where
  "toUpperCase (JStr s) = Returned (map upper_char s)"
| "toUpperCase v = Threw TypeError"

text \<open>\<open>accounts.map((account) => account.toUpperCase())\<close>: only an array has \<open>map\<close>; the
  first element that is not a string throws.\<close>

fun upper_list :: "jsval list \<Rightarrow> string list outcome" where
  "upper_list [] = Returned []"
| "upper_list (x # xs) =
     (case toUpperCase x of
        Threw e \<Rightarrow> Threw e
      | Returned u \<Rightarrow>
          (case upper_list xs of Threw e \<Rightarrow> Threw e | Returned us \<Rightarrow> Returned (u # us)))"

fun upper_all :: "jsval \<Rightarrow> string list outcome" where
  "upper_all (JArr xs) = upper_list xs"
| "upper_all v = Threw TypeError"

text \<open>\<open>xs.indexOf(x)\<close>\<close>

fun indexOf :: "'a list \<Rightarrow> 'a \<Rightarrow> int" where
  "indexOf [] x = -1"
| "indexOf (y # ys) x = (if y = x then 0 else (let i = indexOf ys x in if i < 0 then -1 else i + 1))"

text \<open>\<open>v.length\<close>: arrays and strings have one, a function of the model declares no
  parameters, a data object gives its own property.\<close>

fun js_length :: "jsval \<Rightarrow> jsval outcome" where
  "js_length JUndefined = Threw TypeError"
| "js_length JNull = Threw TypeError"
| "js_length (JArr xs) = Returned (JNum (int (length xs)))"
| "js_length (JStr s) = Returned (JNum (int (length s)))"
| "js_length (JFun f) = Returned (JNum 0)"
| "js_length (JObj kvs) = Returned (opt_prop (JObj kvs) ''length'')"
| "js_length v = Returned JUndefined"

text \<open>\<open>v[i]\<close> for an integer \<open>i\<close>. A data object is read at \<open>i = 0\<close> only (its key
  \<open>"0"\<close>), which is the one index the connector uses on a value that is not an array.\<close>

fun js_index :: "jsval \<Rightarrow> int \<Rightarrow> jsval outcome" where
  "js_index JUndefined i = Threw TypeError"
| "js_index JNull i = Threw TypeError"
| "js_index (JArr xs) i =
     Returned (if 0 \<le> i \<and> i < int (length xs) then xs ! nat i else JUndefined)"
| "js_index (JStr s) i =
     Returned (if 0 \<le> i \<and> i < int (length s) then JStr [s ! nat i] else JUndefined)"
| "js_index (JObj kvs) i = Returned (if i = 0 then opt_prop (JObj kvs) ''0'' else JUndefined)"
| "js_index v i = Returned JUndefined"

section \<open>The wallet provider and the libraries\<close>

text \<open>A request to the injected provider: the \<open>method\<close> and the \<open>params\<close> of the object
  passed to \<open>request\<close> (\<open>JUndefined\<close> when the object has no \<open>params\<close>).\<close>

datatype request = Request string jsval

text \<open>An instance made by \<open>new Contract(address, ABI, runner)\<close>. \<open>cid\<close> numbers the
  instances in the order of their creation: two instances are the same object exactly
  when their numbers agree.\<close>

record contract_inst =
  cid :: nat
  caddress :: string
  cabi :: jsval
  crunner :: jsval

text \<open>
  Everything outside the repository is a parameter: the injected provider, the ethers
  functions, the user's callbacks. The environment is a deterministic machine over a
  state \<open>'w\<close> of its own, which every interaction may change.
  \<^item> \<open>e_windowEthereum\<close>: \<open>window.ethereum\<close>;
  \<^item> \<open>e_detectEthereumProvider\<close>: \<open>await detectEthereumProvider()\<close>;
  \<^item> \<open>e_request\<close>: \<open>await browserProvider.request({method, params})\<close>;
  \<^item> \<open>e_toNumber\<close>, \<open>e_toBeHex\<close>: the ethers conversions (pure; they throw on bad input);
  \<^item> \<open>e_leZero\<close>: \<open>v <= 0\<close> for an operand that is a string, array, object or function
    (JavaScript converts it to a number first);
  \<^item> \<open>e_getSigner\<close>: \<open>await provider.getSigner(account)\<close>;
  \<^item> \<open>e_call\<close>: a call of a user function (awaited where the connector awaits it);
  \<^item> \<open>e_contractMethod\<close>: \<open>await contract[methodName](...methodParams, callParams)\<close>;
  \<^item> \<open>e_wait\<close>: \<open>await txn.wait()\<close>;
  \<^item> \<open>e_newContract\<close>: whether \<open>new Contract(address, ABI, runner)\<close> constructs or throws.
  User functions and event listeners do not call back into the connector.
\<close>

record 'w env =
  e_windowEthereum :: "'w \<Rightarrow> jsval"
  e_detectEthereumProvider :: "'w \<Rightarrow> jsval outcome \<times> 'w"
  e_request :: "request \<Rightarrow> 'w \<Rightarrow> jsval outcome \<times> 'w"
  e_toNumber :: "jsval \<Rightarrow> int outcome"
  e_toBeHex :: "jsval \<Rightarrow> jsval outcome"
  e_leZero :: "jsval \<Rightarrow> bool"
  e_getSigner :: "jsval \<Rightarrow> 'w \<Rightarrow> jsval outcome \<times> 'w"
  e_call :: "nat \<Rightarrow> jsval list \<Rightarrow> 'w \<Rightarrow> jsval outcome \<times> 'w"
  e_contractMethod :: "contract_inst \<Rightarrow> string \<Rightarrow> jsval \<Rightarrow> jsval \<Rightarrow> 'w \<Rightarrow> jsval outcome \<times> 'w"
  e_wait :: "jsval \<Rightarrow> 'w \<Rightarrow> jsval outcome \<times> 'w"
  e_newContract :: "string \<Rightarrow> jsval \<Rightarrow> jsval \<Rightarrow> unit outcome"

section \<open>The connector's state\<close>

text \<open>
  The private fields of \<open>EthersWalletConnector\<close> (\<open>#account\<close> is \<open>p_account\<close>, and so on;
  \<open>#isSetup\<close> exists in the second version only), followed by what the connector does to
  the outside, recorded in the order it happens:
  \<^item> \<open>emitted\<close>: the events passed to \<open>emit\<close>, with their arguments;
  \<^item> \<open>requested\<close>: the requests sent to the provider;
  \<^item> \<open>invoked\<close>: the user functions called;
  \<^item> \<open>listeners\<close>: how many \<open>chainChanged\<close> listeners the connector has registered;
  \<^item> \<open>timers\<close>: how many \<open>setTimeout\<close> callbacks are scheduled and have not run;
  \<^item> \<open>pending\<close>: the answers to requests sent by a call of \<open>disconnectWallet\<close> that
    nobody awaits, whose continuation has not run yet;
  \<^item> \<open>allocated\<close>: how many \<open>Contract\<close> instances have been created;
  \<^item> \<open>world\<close>: the state of the environment.
\<close>

record 'w conn =
  p_isSetup :: bool
  p_shouldNetworkData :: jsval
  p_shouldWalletAddress :: jsval
  p_isInitalized :: bool
  p_provider :: jsval
  p_browserProvider :: jsval
  p_signer :: jsval
  p_account :: jsval
  p_currentChainId :: jsval
  p_execBeforeReconnect :: jsval
  p_signerContract :: "string \<rightharpoonup> contract_inst"
  p_providerContract :: "string \<rightharpoonup> contract_inst"
  emitted :: "(string \<times> jsval list) list"
  requested :: "request list"
  invoked :: "nat list"
  listeners :: nat
  timers :: nat
  pending :: "jsval outcome list"
  allocated :: nat
  world :: 'w

text \<open>The state of a connector just constructed (the field initialisers of the class).\<close>

definition fresh :: "'w \<Rightarrow> 'w conn" where
  "fresh w =
     \<lparr>p_isSetup = False, p_shouldNetworkData = JUndefined, p_shouldWalletAddress = JUndefined,
      p_isInitalized = False, p_provider = JUndefined, p_browserProvider = JUndefined,
      p_signer = JUndefined, p_account = JUndefined, p_currentChainId = JUndefined,
      p_execBeforeReconnect = JUndefined, p_signerContract = Map.empty,
      p_providerContract = Map.empty, emitted = [], requested = [], invoked = [],
      listeners = 0, timers = 0, pending = [], allocated = 0, world = w\<rparr>"

text \<open>A method is a function from the state to an outcome and the new state.\<close>

type_synonym ('a, 'w) js = "'w conn \<Rightarrow> 'a outcome \<times> 'w conn"

definition ret :: "'a \<Rightarrow> ('a, 'w) js" where
  "ret x s = (Returned x, s)"

definition throw :: "jsval \<Rightarrow> ('a, 'w) js" where
  "throw e s = (Threw e, s)"

text \<open>Sequencing: a throw skips the rest.\<close>

definition jbind :: "('a, 'w) js \<Rightarrow> ('a \<Rightarrow> ('b, 'w) js) \<Rightarrow> ('b, 'w) js" where
  "jbind m f s = (case m s of (Returned x, s') \<Rightarrow> f x s' | (Threw e, s') \<Rightarrow> (Threw e, s'))"

text \<open>\<open>try { m } catch (e) { h }\<close>\<close>

definition try_catch :: "('a, 'w) js \<Rightarrow> (jsval \<Rightarrow> ('a, 'w) js) \<Rightarrow> ('a, 'w) js" where
  "try_catch m h s = (case m s of (Returned x, s') \<Rightarrow> (Returned x, s') | (Threw e, s') \<Rightarrow> h e s')"

definition lift :: "'a outcome \<Rightarrow> ('a, 'w) js" where
  "lift r s = (r, s)"

definition modify :: "('w conn \<Rightarrow> 'w conn) \<Rightarrow> (unit, 'w) js" where
  "modify f s = (Returned (), f s)"

text \<open>\<open>this.emit(name, ...args)\<close>\<close>

definition emit :: "string \<Rightarrow> jsval list \<Rightarrow> (unit, 'w) js" where
  "emit name args s = (Returned (), s\<lparr>emitted := emitted s @ [(name, args)]\<rparr>)"

text \<open>\<open>#error(message)\<close> throws a string.\<close>

definition error :: "string \<Rightarrow> ('a, 'w) js" where
  "error message = throw (JStr (''ERROR - EthersWalletConnector: '' @ message))"

text \<open>\<open>await this.#browserProvider.request(r)\<close>: a TypeError unless the field holds an
  object.\<close>

definition provider_request :: "'w env \<Rightarrow> request \<Rightarrow> (jsval, 'w) js" where
  "provider_request env r s =
     (if is_object (p_browserProvider s)
      then (case e_request env r (world s) of
              (res, w') \<Rightarrow> (res, s\<lparr>requested := requested s @ [r], world := w'\<rparr>))
      else (Threw TypeError, s))"

text \<open>A call \<open>f(...args)\<close> of a value: a TypeError unless it is a function.\<close>

definition call_function :: "'w env \<Rightarrow> jsval \<Rightarrow> jsval list \<Rightarrow> (jsval, 'w) js" where
  "call_function env f args s =
     (case f of
        JFun n \<Rightarrow>
          (case e_call env n args (world s) of
             (res, w') \<Rightarrow> (res, s\<lparr>invoked := invoked s @ [n], world := w'\<rparr>))
      | _ \<Rightarrow> (Threw TypeError, s))"

text \<open>\<open>new BrowserProvider(browserProvider)\<close>\<close>

definition BrowserProvider :: "jsval \<Rightarrow> jsval" where
  "BrowserProvider bp = JObj [(''BrowserProvider'', bp)]"

text \<open>\<open>await this.#provider.getSigner(account)\<close>\<close>

definition getSigner :: "'w env \<Rightarrow> jsval \<Rightarrow> (jsval, 'w) js" where
  "getSigner env a s =
     (if is_object (p_provider s)
      then (case e_getSigner env a (world s) of (res, w') \<Rightarrow> (res, s\<lparr>world := w'\<rparr>))
      else (Threw TypeError, s))"

text \<open>Reading a private field or a getter (\<open>this.#f\<close>, \<open>this.g()\<close>) leaves the state as it
  is.\<close>

definition read :: "('w conn \<Rightarrow> 'a) \<Rightarrow> ('a, 'w) js" where
  "read f s = (Returned (f s), s)"

section \<open>Getters (the same text in both versions)\<close>

definition provider :: "'w conn \<Rightarrow> jsval" where
  "provider s = p_provider s"

definition signer :: "'w conn \<Rightarrow> jsval" where
  "signer s = p_signer s"

text \<open>\<open>account = () => this.#account ?? undefined\<close>\<close>

definition account :: "'w conn \<Rightarrow> jsval" where
  "account s = coalesce (p_account s) JUndefined"

definition currentChainId :: "'w conn \<Rightarrow> jsval" where
  "currentChainId s = p_currentChainId s"

text \<open>\<open>this.#currentChainId === (this.#shouldNetworkData?.chain_id ?? 0)\<close>\<close>

definition isCorrectNetwork :: "'w conn \<Rightarrow> bool" where
  "isCorrectNetwork s =
     strict_eq (p_currentChainId s) (coalesce (opt_prop (p_shouldNetworkData s) ''chain_id'') (JNum 0))"

text \<open>\<open>!(this.#account === null || this.#account === undefined)\<close>\<close>

definition isWalletConnected :: "'w conn \<Rightarrow> bool" where
  "isWalletConnected s = (\<not> (p_account s = JNull \<or> p_account s = JUndefined))"

section \<open>Private helpers shared by both versions\<close>

definition requiredOptions :: "string list" where
  "requiredOptions = [''chain_id'', ''chain_name'', ''currency_name'', ''currency_symbol'', ''rpc_url'']"

text \<open>A name between single quotes, as the template string of the message writes it.\<close>

definition quoted :: "string \<Rightarrow> string" where
  "quoted name = CHR 0x27 # name @ [CHR 0x27]"

text \<open>The \<open>forEach\<close> over the required options: the first undefined one throws.\<close>

fun check_options :: "jsval \<Rightarrow> string list \<Rightarrow> (unit, 'w) js" where
  "check_options d [] = ret ()"
| "check_options d (option # rest) =
     jbind (lift (get_prop d option)) (\<lambda>v.
       if v = JUndefined
       then error (quoted option @ '' option is required in '' @ quoted ''shouldNetworkData'' @ ''.'')
       else check_options d rest)"

text \<open>\<open>#checkShouldNetworkDataIsCorrect\<close>\<close>

definition checkShouldNetworkDataIsCorrect :: "(unit, 'w) js" where
  "checkShouldNetworkDataIsCorrect =
     jbind (read p_shouldNetworkData) (\<lambda>shouldNetworkData.
       if shouldNetworkData = JUndefined \<or> shouldNetworkData = JNull
       then error ''You should initialize EthersWalletConnector with chainData in first parameter.''
       else check_options shouldNetworkData requiredOptions)"

text \<open>\<open>#getCurrentAccounts\<close>\<close>

definition getCurrentAccounts :: "'w env \<Rightarrow> (jsval, 'w) js" where
  "getCurrentAccounts env = provider_request env (Request ''eth_accounts'' (JArr []))"

text \<open>The request that \<open>#requestConnect\<close> sends.\<close>

definition requestPermissions :: request where
  "requestPermissions = Request ''wallet_requestPermissions'' (JArr [JObj [(''eth_accounts'', JObj [])]])"

text \<open>\<open>#requestConnect\<close>\<close>

definition requestConnect :: "'w env \<Rightarrow> (bool, 'w) js" where
  "requestConnect env =
     try_catch (jbind (provider_request env requestPermissions) (\<lambda>_. ret True)) (\<lambda>e. ret False)"

text \<open>\<open>this.#currentChainId = toNumber(await this.#browserProvider.request({ method:
  'eth_chainId' }))\<close>\<close>

definition read_chain_id :: "'w env \<Rightarrow> (unit, 'w) js" where
  "read_chain_id env =
     jbind (provider_request env (Request ''eth_chainId'' JUndefined)) (\<lambda>v.
     jbind (lift (e_toNumber env v)) (\<lambda>n.
     modify (\<lambda>s. s\<lparr>p_currentChainId := JNum n\<rparr>)))"

text \<open>\<open>toBeHex(this.#shouldNetworkData.chain_id)\<close>\<close>

definition chain_hex :: "'w env \<Rightarrow> (jsval, 'w) js" where
  "chain_hex env =
     jbind (read p_shouldNetworkData) (\<lambda>d.
     jbind (lift (get_prop d ''chain_id'')) (\<lambda>c. lift (e_toBeHex env c)))"

text \<open>The \<open>params\<close> array built at the start of \<open>#addOrSwitchNetwork\<close>.\<close>

definition network_params :: "'w env \<Rightarrow> (jsval, 'w) js" where
  "network_params env =
     jbind (chain_hex env) (\<lambda>hex.
     jbind (read p_shouldNetworkData) (\<lambda>d.
       ret (JArr [JObj
         ([(''chainId'', hex),
           (''chainName'', opt_prop d ''chain_name''),
           (''rpcUrls'', JArr [opt_prop d ''rpc_url'']),
           (''nativeCurrency'', JObj
              [(''name'', opt_prop d ''currency_name''),
               (''symbol'', opt_prop d ''currency_symbol''),
               (''decimals'', coalesce (opt_prop d ''currency_decimals'') (JNum 18))])]
          @ (if coalesce (opt_prop d ''block_explorer_url'') (JStr []) \<noteq> JStr []
             then [(''blockExplorerUrls'', JArr [opt_prop d ''block_explorer_url''])]
             else []))])))"

subsection \<open>The retry loop of \<open>connectWallet\<close>\<close>

text \<open>
  The local function \<open>reconnect\<close>. It reads \<open>tryConnectCount\<close> and writes \<open>accounts\<close> and
  \<open>tryConnectCount\<close>, so the model returns its result together with the new values of both
  locals (\<open>accounts\<close> is assigned on every path that returns). The second version passes
  \<open>failEventArgs\<close> on to \<open>emit\<close>; the first has no such parameter and emits the bare name,
  which is the empty list here.
\<close>

text \<open>The first half of \<open>reconnect\<close>: the final value of \<open>shouldRetry\<close>, which is
  \<open>True\<close> when the block under \<open>if (tryConnectCount > 0)\<close> is skipped.\<close>

definition shouldRetry :: "'w env \<Rightarrow> nat \<Rightarrow> (bool, 'w) js" where
  "shouldRetry env tryConnectCount =
     (if tryConnectCount > 0
      then (if tryConnectCount > 3 then ret False
            else jbind (read p_execBeforeReconnect) (\<lambda>execBeforeReconnect.
                   if is_function execBeforeReconnect
                   then jbind (call_function env execBeforeReconnect []) (\<lambda>newShouldRetry.
                          ret (case newShouldRetry of JBool b \<Rightarrow> b | _ \<Rightarrow> True))
                   else ret True))
      else ret True)"

text \<open>The second half of \<open>reconnect\<close>: the connection attempt.\<close>

definition connect_attempt :: "'w env \<Rightarrow> nat \<Rightarrow> (bool \<times> jsval \<times> nat, 'w) js" where
  "connect_attempt env tryConnectCount =
     jbind (requestConnect env) (\<lambda>connected.
       if \<not> connected
       then jbind (emit ''failedToConnectWallet'' []) (\<lambda>_. ret (False, JNull, tryConnectCount))
       else jbind (getCurrentAccounts env) (\<lambda>accounts.
              ret (True, accounts, Suc tryConnectCount)))"

definition reconnect :: "'w env \<Rightarrow> string \<Rightarrow> jsval list \<Rightarrow> nat \<Rightarrow> (bool \<times> jsval \<times> nat, 'w) js" where
  "reconnect env failEventName failEventArgs tryConnectCount =
     jbind (shouldRetry env tryConnectCount) (\<lambda>shouldRetry.
       if \<not> shouldRetry
       then jbind (emit failEventName failEventArgs) (\<lambda>_. ret (False, JNull, tryConnectCount))
       else connect_attempt env tryConnectCount)"

lemma reconnect_True:
  assumes "reconnect env failEventName failEventArgs n s = (Returned (True, accounts, n'), s')"
  shows "n' = Suc n \<and> n \<le> 3"
  using assms
  by (auto simp: reconnect_def shouldRetry_def connect_attempt_def jbind_def ret_def emit_def read_def
      split: if_splits prod.splits outcome.splits jsval.splits)

text \<open>
  \<open>while (cond) { if (! await reconnect(failEventName, ...failEventArgs)) break; }\<close>
  with the locals \<open>accounts\<close> and \<open>tryConnectCount\<close>; the result is the final \<open>accounts\<close>.
  The condition and the event arguments are evaluated anew in every iteration.
\<close>

function while_reconnect ::
  "'w env \<Rightarrow> (jsval \<Rightarrow> 'w conn \<Rightarrow> bool outcome) \<Rightarrow> string \<Rightarrow> ('w conn \<Rightarrow> jsval list)
     \<Rightarrow> jsval \<Rightarrow> nat \<Rightarrow> (jsval, 'w) js" where
  "while_reconnect env cond failEventName failEventArgs accounts tryConnectCount s =
     (case cond accounts s of
        Threw e \<Rightarrow> (Threw e, s)
      | Returned False \<Rightarrow> (Returned accounts, s)
      | Returned True \<Rightarrow>
          (case reconnect env failEventName (failEventArgs s) tryConnectCount s of
             (Threw e, s') \<Rightarrow> (Threw e, s')
           | (Returned (ok, accounts', n'), s') \<Rightarrow>
               if ok then while_reconnect env cond failEventName failEventArgs accounts' n' s'
               else (Returned accounts', s')))"
  by pat_completeness auto
termination
proof (relation "measure (\<lambda>(env, cond, failEventName, failEventArgs, accounts, n, s). 4 - n)")
  show "wf (measure (\<lambda>(env, cond, failEventName, failEventArgs, accounts, n, s). 4 - n))"
    by simp
next
  fix env :: "'w env" and cond failEventName failEventArgs accounts tryConnectCount
    and s :: "'w conn" and x y x1a xa ya xb yb
  assume "(x, y) = reconnect env failEventName (failEventArgs s) tryConnectCount s"
    and "x = Returned x1a" and "(xa, ya) = x1a" and "(xb, yb) = ya" and "xa"
  then have "reconnect env failEventName (failEventArgs s) tryConnectCount s
      = (Returned (True, xb, yb), y)"
    by auto
  then have "yb = Suc tryConnectCount \<and> tryConnectCount \<le> 3"
    by (rule reconnect_True)
  then show "((env, cond, failEventName, failEventArgs, xb, yb, y),
              (env, cond, failEventName, failEventArgs, accounts, tryConnectCount, s))
      \<in> measure (\<lambda>(env, cond, failEventName, failEventArgs, accounts, n, s). 4 - n)"
    by auto
qed

declare while_reconnect.simps [simp del]

text \<open>\<open>accounts.map((account) => account.toUpperCase())
  .indexOf(shouldWalletAddress.toUpperCase())\<close>\<close>

definition upper_index :: "jsval \<Rightarrow> jsval \<Rightarrow> int outcome" where
  "upper_index accounts shouldWalletAddress =
     (case upper_all accounts of
        Threw e \<Rightarrow> Threw e
      | Returned us \<Rightarrow>
          (case toUpperCase shouldWalletAddress of
             Threw e \<Rightarrow> Threw e
           | Returned u \<Rightarrow> Returned (indexOf us u)))"

text \<open>\<open>accounts.map((account) => account.toUpperCase())
  .includes(shouldWalletAddress.toUpperCase())\<close>\<close>

definition includes_upper :: "jsval \<Rightarrow> jsval \<Rightarrow> bool outcome" where
  "includes_upper accounts shouldWalletAddress =
     (case upper_all accounts of
        Threw e \<Rightarrow> Threw e
      | Returned us \<Rightarrow>
          (case toUpperCase shouldWalletAddress of
             Threw e \<Rightarrow> Threw e
           | Returned u \<Rightarrow> Returned (u \<in> set us)))"

text \<open>The condition of the first loop: \<open>! accounts.map(...).includes(
  this.#shouldWalletAddress.toUpperCase())\<close>\<close>

definition wallet_missing :: "jsval \<Rightarrow> 'w conn \<Rightarrow> bool outcome" where
  "wallet_missing accounts s =
     (case includes_upper accounts (p_shouldWalletAddress s) of
        Threw e \<Rightarrow> Threw e
      | Returned found \<Rightarrow> Returned (\<not> found))"

text \<open>\<open>v <= 0\<close>\<close>

fun le_zero :: "'w env \<Rightarrow> jsval \<Rightarrow> bool" where
  "le_zero env (JNum n) = (n \<le> 0)"
| "le_zero env JUndefined = False"
| "le_zero env JNull = True"
| "le_zero env (JBool b) = (\<not> b)"
| "le_zero env v = e_leZero env v"

text \<open>\<open>accounts.length <= 0\<close>\<close>

definition no_accounts :: "'w env \<Rightarrow> jsval \<Rightarrow> 'w conn \<Rightarrow> bool outcome" where
  "no_accounts env accounts s =
     (case js_length accounts of Threw e \<Rightarrow> Threw e | Returned n \<Rightarrow> Returned (le_zero env n))"

text \<open>\<open>this.#shouldWalletAddress !== null ? accounts.map((account) =>
  account.toUpperCase()).indexOf(this.#shouldWalletAddress.toUpperCase()) : 0\<close>\<close>

definition account_index :: "jsval \<Rightarrow> (int, 'w) js" where
  "account_index accounts =
     jbind (read p_shouldWalletAddress) (\<lambda>shouldWalletAddress.
       if shouldWalletAddress \<noteq> JNull then lift (upper_index accounts shouldWalletAddress)
       else ret 0)"

text \<open>
  \<open>connectWallet\<close> after the network check, in the order of its text, which is the same
  in both versions except for one argument. First the forced connection (from
  \<open>typeof forceNewConnect\<close> to the end of \<open>if (forceNewConnect)\<close>): the result is
  \<open>connected\<close>, \<open>True\<close> when no connection is forced.
\<close>

definition force_connect :: "'w env \<Rightarrow> jsval \<Rightarrow> (bool, 'w) js" where
  "force_connect env forceNewConnect0 =
     jbind (if is_function forceNewConnect0 then call_function env forceNewConnect0 []
            else ret forceNewConnect0) (\<lambda>forceNewConnect.
     if truthy forceNewConnect then requestConnect env else ret True)"

text \<open>The two loops under \<open>if (this.#shouldWalletAddress !== null)\<close>; the result is the
  final \<open>accounts\<close>. The second version passes \<open>this.#shouldWalletAddress\<close> to \<open>reconnect\<close>
  as the argument of \<open>invalidWallet\<close> (\<open>withAddress\<close>), the first passes nothing.\<close>

definition acquire_accounts :: "'w env \<Rightarrow> bool \<Rightarrow> jsval \<Rightarrow> (jsval, 'w) js" where
  "acquire_accounts env withAddress accounts =
     jbind (read p_shouldWalletAddress) (\<lambda>shouldWalletAddress.
       if shouldWalletAddress \<noteq> JNull
       then while_reconnect env wallet_missing ''invalidWallet''
              (\<lambda>s. if withAddress then [p_shouldWalletAddress s] else []) accounts 0
       else while_reconnect env (no_accounts env) ''failedToConnectWallet'' (\<lambda>s. []) accounts 0)"

text \<open>The block under \<open>if (accounts !== null)\<close>.\<close>

definition adopt_account :: "'w env \<Rightarrow> jsval \<Rightarrow> (unit, 'w) js" where
  "adopt_account env accounts =
     (if accounts \<noteq> JNull
      then jbind (account_index accounts) (\<lambda>i.
           jbind (lift (js_index accounts i)) (\<lambda>a.
           jbind (modify (\<lambda>s. s\<lparr>p_account := a\<rparr>)) (\<lambda>_.
           jbind (getSigner env a) (\<lambda>sg.
           jbind (modify (\<lambda>s. s\<lparr>p_signer := sg\<rparr>)) (\<lambda>_.
           emit ''walletConnected'' [a])))))
      else ret ())"

text \<open>The whole: the test \<open>if (isCorrectNetwork)\<close> is true whenever this part runs.\<close>

definition connectWallet_accounts :: "'w env \<Rightarrow> bool \<Rightarrow> jsval \<Rightarrow> (jsval, 'w) js" where
  "connectWallet_accounts env withAddress forceNewConnect =
     jbind (force_connect env forceNewConnect) (\<lambda>connected.
     if \<not> connected
     then jbind (emit ''failedToConnectWallet'' []) (\<lambda>_. ret JUndefined)
     else
       jbind (getCurrentAccounts env) (\<lambda>accounts0.
       jbind (acquire_accounts env withAddress (if isArray accounts0 then accounts0 else JArr []))
         (\<lambda>accounts.
       jbind (adopt_account env accounts) (\<lambda>_.
       read p_account))))"

text \<open>\<open>window.ethereum ?? await detectEthereumProvider()\<close>\<close>

definition find_provider :: "'w env \<Rightarrow> (jsval, 'w) js" where
  "find_provider env s =
     (if nullish (e_windowEthereum env (world s))
      then (case e_detectEthereumProvider env (world s) of (res, w') \<Rightarrow> (res, s\<lparr>world := w'\<rparr>))
      else (Returned (e_windowEthereum env (world s)), s))"

text \<open>\<open>this.#browserProvider.on('chainChanged', handler)\<close>\<close>

definition on_chainChanged :: "(unit, 'w) js" where
  "on_chainChanged s =
     (if is_object (p_browserProvider s) then (Returned (), s\<lparr>listeners := Suc (listeners s)\<rparr>)
      else (Threw TypeError, s))"

text \<open>The assignments of \<open>destroy\<close> that both versions make.\<close>

definition reset_fields :: "'w conn \<Rightarrow> 'w conn" where
  "reset_fields s =
     s\<lparr>p_shouldNetworkData := JUndefined, p_shouldWalletAddress := JUndefined,
       p_isInitalized := False, p_provider := JUndefined, p_browserProvider := JUndefined,
       p_signer := JUndefined, p_account := JUndefined, p_currentChainId := JUndefined,
       p_execBeforeReconnect := JUndefined, p_signerContract := Map.empty,
       p_providerContract := Map.empty\<rparr>"

text \<open>\<open>this.#signerContract[contractAddress] ??= new Contract(contractAddress, ABI,
  this.#signer)\<close>, and the same for \<open>#providerContract\<close> with \<open>this.#provider\<close>. The
  right-hand side is evaluated only when the cache has no entry for the address; a
  constructor that throws leaves the cache as it is.\<close>

definition signer_contract :: "'w env \<Rightarrow> string \<Rightarrow> jsval \<Rightarrow> (contract_inst, 'w) js" where
  "signer_contract env contractAddress ABI s =
     (case p_signerContract s contractAddress of
        Some c \<Rightarrow> (Returned c, s)
      | None \<Rightarrow>
          (case e_newContract env contractAddress ABI (p_signer s) of
             Threw e \<Rightarrow> (Threw e, s)
           | Returned u \<Rightarrow>
               (Returned \<lparr>cid = allocated s, caddress = contractAddress, cabi = ABI,
                          crunner = p_signer s\<rparr>,
                s\<lparr>p_signerContract := (p_signerContract s)(contractAddress \<mapsto>
                      \<lparr>cid = allocated s, caddress = contractAddress, cabi = ABI,
                       crunner = p_signer s\<rparr>),
                  allocated := Suc (allocated s)\<rparr>)))"

definition provider_contract :: "'w env \<Rightarrow> string \<Rightarrow> jsval \<Rightarrow> (contract_inst, 'w) js" where
  "provider_contract env contractAddress ABI s =
     (case p_providerContract s contractAddress of
        Some c \<Rightarrow> (Returned c, s)
      | None \<Rightarrow>
          (case e_newContract env contractAddress ABI (p_provider s) of
             Threw e \<Rightarrow> (Threw e, s)
           | Returned u \<Rightarrow>
               (Returned \<lparr>cid = allocated s, caddress = contractAddress, cabi = ABI,
                          crunner = p_provider s\<rparr>,
                s\<lparr>p_providerContract := (p_providerContract s)(contractAddress \<mapsto>
                      \<lparr>cid = allocated s, caddress = contractAddress, cabi = ABI,
                       crunner = p_provider s\<rparr>),
                  allocated := Suc (allocated s)\<rparr>)))"

subsection \<open>The methods of the returned wrapper\<close>

text \<open>\<open>await contract[methodName](...methodParams, callParams)\<close>\<close>

definition contract_method ::
  "'w env \<Rightarrow> contract_inst \<Rightarrow> string \<Rightarrow> jsval \<Rightarrow> jsval \<Rightarrow> (jsval, 'w) js" where
  "contract_method env c methodName methodParams callParams s =
     (case e_contractMethod env c methodName methodParams callParams (world s) of
        (res, w') \<Rightarrow> (res, s\<lparr>world := w'\<rparr>))"

text \<open>\<open>await txn.wait()\<close>\<close>

definition txn_wait :: "'w env \<Rightarrow> jsval \<Rightarrow> (jsval, 'w) js" where
  "txn_wait env txn s = (case e_wait env txn (world s) of (res, w') \<Rightarrow> (res, s\<lparr>world := w'\<rparr>))"

text \<open>The body of \<open>call\<close> (and of \<open>signedCall\<close>, which differs in the contract it uses).
  After \<open>console.log(e)\<close> the function falls through to \<open>return null\<close>.\<close>

definition wrapper_call ::
  "'w env \<Rightarrow> contract_inst \<Rightarrow> string \<Rightarrow> jsval \<Rightarrow> jsval \<Rightarrow> jsval \<Rightarrow> (jsval, 'w) js" where
  "wrapper_call env c methodName methodParams callParams onError =
     try_catch
       (contract_method env c methodName (default_param methodParams (JArr []))
          (default_param callParams (JObj [])))
       (\<lambda>e. if is_function (default_param onError JNull)
            then jbind (call_function env (default_param onError JNull) [e]) (\<lambda>r. ret (coalesce r JNull))
            else ret JNull)"

text \<open>\<open>e?.info?.error ?? (e?.innerError ?? e)\<close>\<close>

definition extracted_error :: "jsval \<Rightarrow> jsval" where
  "extracted_error e =
     coalesce (opt_prop (opt_prop e ''info'') ''error'') (coalesce (opt_prop e ''innerError'') e)"

text \<open>The body of \<open>send\<close>.\<close>

definition wrapper_send ::
  "'w env \<Rightarrow> contract_inst \<Rightarrow> string \<Rightarrow> jsval \<Rightarrow> jsval \<Rightarrow> (jsval, 'w) js" where
  "wrapper_send env c methodName methodParams sendParams =
     try_catch
       (jbind (contract_method env c methodName (default_param methodParams (JArr []))
                 (default_param sendParams (JObj []))) (\<lambda>txn.
        jbind (txn_wait env txn) (\<lambda>receipt. ret receipt)))
       (\<lambda>e. ret (extracted_error e))"

section \<open>The first version (\<open>src/index.js\<close>)\<close>

text \<open>\<open>disconnectWallet\<close>: an \<open>async\<close> function without an \<open>await\<close>.\<close>

definition disconnectWallet_v1 :: "(jsval, 'w) js" where
  "disconnectWallet_v1 =
     jbind (read isWalletConnected) (\<lambda>connected.
       if connected
       then jbind (modify (\<lambda>s. s\<lparr>p_account := JUndefined\<rparr>)) (\<lambda>_.
            jbind (emit ''walletDisconnected'' []) (\<lambda>_. ret JUndefined))
       else ret JUndefined)"

text \<open>A call of an \<open>async\<close> function that is not awaited: what the callee does before it
  first suspends has happened when the call returns, and its promise (fulfilled or
  rejected) is dropped. \<open>disconnectWallet\<close> of this version has no \<open>await\<close>, so it runs to
  its end.\<close>

definition unawaited :: "('a, 'w) js \<Rightarrow> (unit, 'w) js" where
  "unawaited m s = (Returned (), snd (m s))"

text \<open>The \<open>try\<close> statement of \<open>#addOrSwitchNetwork\<close>: \<open>False\<close> where the handler returns
  \<open>false\<close> from the method.\<close>

definition try_add_v1 :: "'w env \<Rightarrow> jsval \<Rightarrow> (bool, 'w) js" where
  "try_add_v1 env params =
     try_catch
       (jbind (provider_request env (Request ''wallet_addEthereumChain'' params)) (\<lambda>_. ret True))
       (\<lambda>e. jbind (emit ''failedToAddnetwork'' []) (\<lambda>_. ret False))"

text \<open>\<open>#addOrSwitchNetwork\<close>\<close>

definition addOrSwitchNetwork_v1 :: "'w env \<Rightarrow> (bool, 'w) js" where
  "addOrSwitchNetwork_v1 env =
     jbind (network_params env) (\<lambda>params.
     jbind (try_add_v1 env params) (\<lambda>added.
     if \<not> added then ret False
     else jbind (read_chain_id env) (\<lambda>_. read isCorrectNetwork)))"

text \<open>\<open>#detectNetwork(askUserToSwitch)\<close>\<close>

definition detectNetwork_v1 :: "'w env \<Rightarrow> bool \<Rightarrow> (bool, 'w) js" where
  "detectNetwork_v1 env askUserToSwitch =
     jbind (read_chain_id env) (\<lambda>_.
     jbind (read isCorrectNetwork) (\<lambda>correct.
       if \<not> correct
       then (if askUserToSwitch then addOrSwitchNetwork_v1 env
             else jbind (unawaited disconnectWallet_v1) (\<lambda>_. ret False))
       else ret True))"

definition connectWallet_v1 :: "'w env \<Rightarrow> jsval \<Rightarrow> (jsval, 'w) js" where
  "connectWallet_v1 env forceNewConnect =
     jbind (detectNetwork_v1 env True) (\<lambda>isCorrectNetwork.
     if \<not> isCorrectNetwork then ret JUndefined
     else connectWallet_accounts env False (default_param forceNewConnect (JBool False)))"

text \<open>The listener that \<open>init\<close> registers for \<open>chainChanged\<close>.\<close>

definition chainChanged_v1 :: "'w env \<Rightarrow> (unit, 'w) js" where
  "chainChanged_v1 env =
     jbind (detectNetwork_v1 env False) (\<lambda>isCorrectNetwork.
       emit ''networkSwitched'' [JBool isCorrectNetwork])"

definition init_v1 :: "'w env \<Rightarrow> jsval \<Rightarrow> jsval \<Rightarrow> jsval \<Rightarrow> jsval \<Rightarrow> (jsval, 'w) js" where
  "init_v1 env shouldNetworkData shouldWalletAddress execBeforeReconnect autoConnect0 =
     jbind (read p_isInitalized) (\<lambda>isInitalized.
     jbind (if isInitalized then error ''EthersWalletConnector is already initialized.''
            else ret ()) (\<lambda>_.
     jbind (modify (\<lambda>s. s\<lparr>p_shouldNetworkData := shouldNetworkData,
                            p_shouldWalletAddress := default_param shouldWalletAddress JNull,
                            p_execBeforeReconnect := default_param execBeforeReconnect JNull\<rparr>)) (\<lambda>_.
     jbind (if is_function (default_param autoConnect0 (JBool True))
            then call_function env (default_param autoConnect0 (JBool True)) []
            else ret (default_param autoConnect0 (JBool True))) (\<lambda>autoConnect.
     jbind checkShouldNetworkDataIsCorrect (\<lambda>_.
     jbind (find_provider env) (\<lambda>bp.
     jbind (modify (\<lambda>s. s\<lparr>p_browserProvider := bp\<rparr>)) (\<lambda>_.
     if truthy bp
     then
       jbind (modify (\<lambda>s. s\<lparr>p_provider := BrowserProvider bp\<rparr>)) (\<lambda>_.
       jbind (if truthy autoConnect then jbind (connectWallet_v1 env JUndefined) (\<lambda>_. ret ())
              else jbind (detectNetwork_v1 env True) (\<lambda>_. ret ())) (\<lambda>_.
       jbind on_chainChanged (\<lambda>_.
       jbind (modify (\<lambda>s. s\<lparr>p_isInitalized := True\<rparr>)) (\<lambda>_.
       jbind (emit ''walletConnectorInitialized'' []) (\<lambda>_. ret JUndefined)))))
     else
       jbind (emit ''browserProviderNotFound'' []) (\<lambda>_.
         error ''You should install MetaMask.''))))))))"

definition destroy_v1 :: "(jsval, 'w) js" where
  "destroy_v1 = jbind (modify reset_fields) (\<lambda>_. ret JUndefined)"

text \<open>What \<open>contract\<close> returns in the first version: an object whose methods close over
  one \<open>Contract\<close> instance.\<close>

datatype wrapper_v1 = Wrapper_v1 contract_inst

definition contract_v1 :: "'w env \<Rightarrow> string \<Rightarrow> jsval \<Rightarrow> jsval \<Rightarrow> (wrapper_v1, 'w) js" where
  "contract_v1 env contractAddress ABI isSigner =
     jbind (read isWalletConnected) (\<lambda>connected.
     jbind (if \<not> connected then jbind (connectWallet_v1 env JUndefined) (\<lambda>_. ret ())
            else ret ()) (\<lambda>_.
     jbind (if truthy (default_param isSigner (JBool False))
            then signer_contract env contractAddress ABI
            else provider_contract env contractAddress ABI) (\<lambda>contract.
     ret (Wrapper_v1 contract))))"

fun call_v1 :: "'w env \<Rightarrow> wrapper_v1 \<Rightarrow> string \<Rightarrow> jsval \<Rightarrow> jsval \<Rightarrow> jsval \<Rightarrow> (jsval, 'w) js" where
  "call_v1 env (Wrapper_v1 contract) methodName methodParams callParams onError =
     wrapper_call env contract methodName methodParams callParams onError"

fun send_v1 :: "'w env \<Rightarrow> wrapper_v1 \<Rightarrow> string \<Rightarrow> jsval \<Rightarrow> jsval \<Rightarrow> (jsval, 'w) js" where
  "send_v1 env (Wrapper_v1 contract) methodName methodParams sendParams =
     wrapper_send env contract methodName methodParams sendParams"

section \<open>The second version (\<open>unnamed/part_002\<close>)\<close>

text \<open>\<open>#checkIfAllowed\<close>: \<open>#error\<close> throws, so the \<open>return false\<close> after it is never
  reached.\<close>

definition checkIfAllowed :: "(bool, 'w) js" where
  "checkIfAllowed =
     jbind (read p_browserProvider) (\<lambda>browserProvider.
       if \<not> truthy browserProvider
       then jbind (emit ''walletProviderNotFound'' []) (\<lambda>_. error ''Wallet provider not found.'')
       else ret True)"

definition revokePermissions :: request where
  "revokePermissions = Request ''wallet_revokePermissions'' (JArr [JObj [(''eth_accounts'', JObj [])]])"

text \<open>\<open>disconnectWallet\<close>, awaited by its caller.\<close>

definition disconnectWallet_v2 :: "'w env \<Rightarrow> (jsval, 'w) js" where
  "disconnectWallet_v2 env =
     jbind checkIfAllowed (\<lambda>allowed.
     if \<not> allowed then ret JUndefined
     else
       jbind (read isWalletConnected) (\<lambda>connected.
       if connected
       then try_catch
              (jbind (provider_request env revokePermissions) (\<lambda>_.
               jbind (modify (\<lambda>s. s\<lparr>p_account := JUndefined\<rparr>)) (\<lambda>_.
               jbind (emit ''walletDisconnected'' []) (\<lambda>_. ret JUndefined))))
              (\<lambda>e. ret (JBool False))
       else ret JUndefined))"

text \<open>
  \<open>#detectNetwork\<close> calls \<open>this.disconnectWallet()\<close> without awaiting it. The callee runs
  up to its \<open>await\<close>: the check, the test and the sending of the request happen at once
  (\<open>disconnectWallet_v2_start\<close>; an exception there only rejects the dropped promise). The
  answer is kept in \<open>pending\<close>, and the rest of the callee runs in a later turn of the
  event loop (\<open>disconnectWallet_v2_resume\<close>, by \<open>settle_v2\<close>).
\<close>

definition keep_pending :: "jsval outcome \<Rightarrow> 'w conn \<Rightarrow> 'w conn" where
  "keep_pending r s = s\<lparr>pending := pending s @ [r]\<rparr>"

definition disconnectWallet_v2_start :: "'w env \<Rightarrow> (unit, 'w) js" where
  "disconnectWallet_v2_start env =
     unawaited
       (jbind checkIfAllowed (\<lambda>allowed.
        jbind (read isWalletConnected) (\<lambda>connected.
          if allowed \<and> connected
          then (\<lambda>s. case provider_request env revokePermissions s of
                       (r, s') \<Rightarrow> (Returned (), keep_pending r s'))
          else ret ())))"

definition disconnectWallet_v2_resume :: "jsval outcome \<Rightarrow> 'w conn \<Rightarrow> 'w conn" where
  "disconnectWallet_v2_resume r s =
     (case r of
        Returned v \<Rightarrow> s\<lparr>p_account := JUndefined, emitted := emitted s @ [(''walletDisconnected'', [])]\<rparr>
      | Threw e \<Rightarrow> s)"

definition settle_v2 :: "(unit, 'w) js" where
  "settle_v2 s =
     (case pending s of
        [] \<Rightarrow> (Returned (), s)
      | r # rs \<Rightarrow> (Returned (), disconnectWallet_v2_resume r (s\<lparr>pending := rs\<rparr>)))"

text \<open>The two \<open>try\<close> statements of \<open>#addOrSwitchNetwork\<close>. The result is \<open>None\<close> where a
  handler returns \<open>false\<close> from the method, and the value of \<open>isAddingNewNetwork\<close>
  otherwise.\<close>

definition try_add_v2 :: "'w env \<Rightarrow> jsval \<Rightarrow> (bool option, 'w) js" where
  "try_add_v2 env params =
     try_catch
       (jbind (provider_request env (Request ''wallet_addEthereumChain'' params))
          (\<lambda>_. ret (Some True)))
       (\<lambda>e. jbind (lift (get_prop e ''code'')) (\<lambda>code.
          if \<not> strict_eq code (JNum (- 32603))
          then jbind (emit ''failedToAddNetwork'' []) (\<lambda>_. ret None)
          else ret (Some True)))"

definition try_switch_v2 :: "'w env \<Rightarrow> jsval \<Rightarrow> (bool option, 'w) js" where
  "try_switch_v2 env params =
     try_catch
       (jbind (chain_hex env) (\<lambda>hex.
        jbind (provider_request env
                 (Request ''wallet_switchEthereumChain'' (JArr [JObj [(''chainId'', hex)]])))
          (\<lambda>_. ret (Some False))))
       (\<lambda>e. jbind (lift (get_prop e ''code'')) (\<lambda>code.
          if strict_eq code (JNum 4902) then try_add_v2 env params
          else jbind (emit ''failedToSwitchNetwork'' []) (\<lambda>_. ret None)))"

text \<open>\<open>#addOrSwitchNetwork\<close>\<close>

definition addOrSwitchNetwork_v2 :: "'w env \<Rightarrow> (bool, 'w) js" where
  "addOrSwitchNetwork_v2 env =
     jbind (network_params env) (\<lambda>params.
     jbind (try_switch_v2 env params) (\<lambda>tried.
     case tried of
       None \<Rightarrow> ret False
     | Some isAddingNewNetwork \<Rightarrow>
         jbind (read p_currentChainId) (\<lambda>previousChainId.
         jbind (read_chain_id env) (\<lambda>_.
         jbind (read isCorrectNetwork) (\<lambda>isCorrectNetwork.
         jbind (read p_currentChainId) (\<lambda>currentChainId.
         jbind (if \<not> isAddingNewNetwork \<and> \<not> strict_eq previousChainId currentChainId
                then jbind (read p_shouldNetworkData) (\<lambda>d.
                     jbind (lift (get_prop d ''chain_name'')) (\<lambda>name.
                       emit ''networkSwitched'' [JBool isCorrectNetwork, name]))
                else ret ()) (\<lambda>_.
         ret isCorrectNetwork)))))))"

definition detectNetwork_v2 :: "'w env \<Rightarrow> bool \<Rightarrow> (bool, 'w) js" where
  "detectNetwork_v2 env askUserToSwitch =
     jbind (read_chain_id env) (\<lambda>_.
     jbind (read isCorrectNetwork) (\<lambda>correct.
       if \<not> correct
       then (if askUserToSwitch then addOrSwitchNetwork_v2 env
             else jbind (disconnectWallet_v2_start env) (\<lambda>_. ret False))
       else ret True))"

definition connectWallet_v2 :: "'w env \<Rightarrow> jsval \<Rightarrow> (jsval, 'w) js" where
  "connectWallet_v2 env forceNewConnect =
     jbind checkIfAllowed (\<lambda>allowed.
     if \<not> allowed then ret JUndefined
     else
       jbind (detectNetwork_v2 env True) (\<lambda>isCorrectNetwork.
       if \<not> isCorrectNetwork then ret JUndefined
       else connectWallet_accounts env True (default_param forceNewConnect (JBool False))))"

text \<open>The listener for \<open>chainChanged\<close>.\<close>

definition chainChanged_v2 :: "'w env \<Rightarrow> (unit, 'w) js" where
  "chainChanged_v2 env =
     jbind (detectNetwork_v2 env False) (\<lambda>isCorrectNetwork.
     jbind (read p_shouldNetworkData) (\<lambda>d.
     jbind (lift (get_prop d ''chain_name'')) (\<lambda>name.
       emit ''networkSwitched'' [JBool isCorrectNetwork, name])))"

text \<open>The callback that \<open>init\<close> hands to \<open>setTimeout\<close>, when the timer fires: it registers
  the listener. The delay itself (400 ms) is not modelled.\<close>

definition timeout_v2 :: "(unit, 'w) js" where
  "timeout_v2 =
     jbind (read timers) (\<lambda>n.
       if n = 0 then ret ()
       else jbind (modify (\<lambda>s. s\<lparr>timers := timers s - 1\<rparr>)) (\<lambda>_. on_chainChanged))"

text \<open>\<open>destroy\<close> and \<open>setup\<close> return \<open>this\<close>, the connector itself, which the model's
  \<open>()\<close> stands for.\<close>

definition destroy_v2 :: "(unit, 'w) js" where
  "destroy_v2 = modify (\<lambda>s. (reset_fields s)\<lparr>p_isSetup := False\<rparr>)"

definition setup_v2 :: "jsval \<Rightarrow> jsval \<Rightarrow> jsval \<Rightarrow> (unit, 'w) js" where
  "setup_v2 shouldNetworkData shouldWalletAddress execBeforeReconnect =
     jbind destroy_v2 (\<lambda>_.
     jbind (modify (\<lambda>s. s\<lparr>p_shouldNetworkData := shouldNetworkData,
                            p_shouldWalletAddress := default_param shouldWalletAddress JNull,
                            p_execBeforeReconnect := default_param execBeforeReconnect JNull\<rparr>)) (\<lambda>_.
     modify (\<lambda>s. s\<lparr>p_isSetup := True\<rparr>)))"

definition init_v2 :: "'w env \<Rightarrow> jsval \<Rightarrow> (jsval, 'w) js" where
  "init_v2 env autoConnect0 =
     jbind (read p_isSetup) (\<lambda>isSetup.
     jbind (if \<not> isSetup then error ''You should setup EthersWalletConnector first.''
            else ret ()) (\<lambda>_.
     jbind (read p_isInitalized) (\<lambda>isInitalized.
     jbind (if isInitalized then error ''EthersWalletConnector is already initialized.''
            else ret ()) (\<lambda>_.
     jbind (if is_function (default_param autoConnect0 (JBool True))
            then call_function env (default_param autoConnect0 (JBool True)) []
            else ret (default_param autoConnect0 (JBool True))) (\<lambda>autoConnect.
     jbind checkShouldNetworkDataIsCorrect (\<lambda>_.
     jbind (find_provider env) (\<lambda>bp.
     jbind (modify (\<lambda>s. s\<lparr>p_browserProvider := bp\<rparr>)) (\<lambda>_.
     if truthy bp
     then
       jbind (modify (\<lambda>s. s\<lparr>p_provider := BrowserProvider bp\<rparr>)) (\<lambda>_.
       jbind (if \<not> truthy autoConnect then jbind (detectNetwork_v2 env True) (\<lambda>_. ret ())
              else ret ()) (\<lambda>_.
       jbind (modify (\<lambda>s. s\<lparr>timers := Suc (timers s)\<rparr>)) (\<lambda>_.
       jbind (modify (\<lambda>s. s\<lparr>p_isInitalized := True\<rparr>)) (\<lambda>_.
       jbind (emit ''walletConnectorInitialized'' []) (\<lambda>_.
       jbind (if truthy autoConnect then jbind (connectWallet_v2 env JUndefined) (\<lambda>_. ret ())
              else ret ()) (\<lambda>_. ret JUndefined))))))
     else
       jbind (emit ''walletProviderNotFound'' []) (\<lambda>_.
         error ''Wallet provider not found.'')))))))))"

text \<open>What \<open>contract\<close> returns in the second version: an object whose methods close over
  \<open>contractCaller\<close> and \<open>contractSigner\<close>. The bare \<open>return\<close> after a failed
  \<open>#checkIfAllowed\<close> is \<open>None\<close>.\<close>

datatype wrapper_v2 = Wrapper_v2 contract_inst contract_inst

definition contract_v2 :: "'w env \<Rightarrow> string \<Rightarrow> jsval \<Rightarrow> (wrapper_v2 option, 'w) js" where
  "contract_v2 env contractAddress ABI =
     jbind checkIfAllowed (\<lambda>allowed.
     if \<not> allowed then ret None
     else
       jbind (read isWalletConnected) (\<lambda>connected.
       jbind (if \<not> connected then jbind (connectWallet_v2 env JUndefined) (\<lambda>_. ret ())
              else ret ()) (\<lambda>_.
       jbind (provider_contract env contractAddress ABI) (\<lambda>contractCaller.
       jbind (signer_contract env contractAddress ABI) (\<lambda>contractSigner.
       ret (Some (Wrapper_v2 contractCaller contractSigner)))))))"

fun call_v2 :: "'w env \<Rightarrow> wrapper_v2 \<Rightarrow> string \<Rightarrow> jsval \<Rightarrow> jsval \<Rightarrow> jsval \<Rightarrow> (jsval, 'w) js" where
  "call_v2 env (Wrapper_v2 contractCaller contractSigner) methodName methodParams callParams onError =
     wrapper_call env contractCaller methodName methodParams callParams onError"

fun signedCall_v2 :: "'w env \<Rightarrow> wrapper_v2 \<Rightarrow> string \<Rightarrow> jsval \<Rightarrow> jsval \<Rightarrow> jsval \<Rightarrow> (jsval, 'w) js" where
  "signedCall_v2 env (Wrapper_v2 contractCaller contractSigner) methodName methodParams callParams onError =
     wrapper_call env contractSigner methodName methodParams callParams onError"

fun send_v2 :: "'w env \<Rightarrow> wrapper_v2 \<Rightarrow> string \<Rightarrow> jsval \<Rightarrow> jsval \<Rightarrow> (jsval, 'w) js" where
  "send_v2 env (Wrapper_v2 contractCaller contractSigner) methodName methodParams sendParams =
     wrapper_send env contractSigner methodName methodParams sendParams"

section \<open>Histories of a connector\<close>

text \<open>
  What can happen to a connector between two moments: a call of a public method, a call
  of a method of a wrapper that \<open>contract\<close> returned, a \<open>chainChanged\<close> event delivered to
  the registered listener and, in the second version, the firing of the timer that
  \<open>init\<close> set and the continuation of an unawaited \<open>disconnectWallet\<close>.
\<close>

datatype op_v1 =
    Init_v1 jsval jsval jsval jsval
  | Destroy_v1
  | ConnectWallet_v1 jsval
  | DisconnectWallet_v1
  | Contract_v1 string jsval jsval
  | Call_v1 wrapper_v1 string jsval jsval jsval
  | Send_v1 wrapper_v1 string jsval jsval
  | ChainChanged_v1

fun exec_v1 :: "'w env \<Rightarrow> op_v1 \<Rightarrow> 'w conn \<Rightarrow> 'w conn" where
  "exec_v1 env (Init_v1 d a cb auto) s = snd (init_v1 env d a cb auto s)"
| "exec_v1 env Destroy_v1 s = snd (destroy_v1 s)"
| "exec_v1 env (ConnectWallet_v1 f) s = snd (connectWallet_v1 env f s)"
| "exec_v1 env DisconnectWallet_v1 s = snd (disconnectWallet_v1 s)"
| "exec_v1 env (Contract_v1 addr abi sg) s = snd (contract_v1 env addr abi sg s)"
| "exec_v1 env (Call_v1 w m ps cp h) s = snd (call_v1 env w m ps cp h s)"
| "exec_v1 env (Send_v1 w m ps sp) s = snd (send_v1 env w m ps sp s)"
| "exec_v1 env ChainChanged_v1 s = snd (chainChanged_v1 env s)"

fun run_v1 :: "'w env \<Rightarrow> op_v1 list \<Rightarrow> 'w conn \<Rightarrow> 'w conn" where
  "run_v1 env [] s = s"
| "run_v1 env (x # xs) s = run_v1 env xs (exec_v1 env x s)"

datatype op_v2 =
    Setup_v2 jsval jsval jsval
  | Init_v2 jsval
  | Destroy_v2
  | ConnectWallet_v2 jsval
  | DisconnectWallet_v2
  | Contract_v2 string jsval
  | Call_v2 wrapper_v2 string jsval jsval jsval
  | SignedCall_v2 wrapper_v2 string jsval jsval jsval
  | Send_v2 wrapper_v2 string jsval jsval
  | ChainChanged_v2
  | Timeout_v2
  | Settle_v2

fun exec_v2 :: "'w env \<Rightarrow> op_v2 \<Rightarrow> 'w conn \<Rightarrow> 'w conn" where
  "exec_v2 env (Setup_v2 d a cb) s = snd (setup_v2 d a cb s)"
| "exec_v2 env (Init_v2 auto) s = snd (init_v2 env auto s)"
| "exec_v2 env Destroy_v2 s = snd (destroy_v2 s)"
| "exec_v2 env (ConnectWallet_v2 f) s = snd (connectWallet_v2 env f s)"
| "exec_v2 env DisconnectWallet_v2 s = snd (disconnectWallet_v2 env s)"
| "exec_v2 env (Contract_v2 addr abi) s = snd (contract_v2 env addr abi s)"
| "exec_v2 env (Call_v2 w m ps cp h) s = snd (call_v2 env w m ps cp h s)"
| "exec_v2 env (SignedCall_v2 w m ps cp h) s = snd (signedCall_v2 env w m ps cp h s)"
| "exec_v2 env (Send_v2 w m ps sp) s = snd (send_v2 env w m ps sp s)"
| "exec_v2 env ChainChanged_v2 s = snd (chainChanged_v2 env s)"
| "exec_v2 env Timeout_v2 s = snd (timeout_v2 s)"
| "exec_v2 env Settle_v2 s = snd (settle_v2 s)"

fun run_v2 :: "'w env \<Rightarrow> op_v2 list \<Rightarrow> 'w conn \<Rightarrow> 'w conn" where
  "run_v2 env [] s = s"
| "run_v2 env (x # xs) s = run_v2 env xs (exec_v2 env x s)"

text \<open>Operations that empty the caches: \<open>destroy\<close>, and \<open>setup\<close>, which calls it.\<close>

fun destroys_v1 :: "op_v1 \<Rightarrow> bool" where
  "destroys_v1 Destroy_v1 = True"
| "destroys_v1 x = False"

fun destroys_v2 :: "op_v2 \<Rightarrow> bool" where
  "destroys_v2 Destroy_v2 = True"
| "destroys_v2 (Setup_v2 d a cb) = True"
| "destroys_v2 x = False"

section \<open>Observations\<close>

text \<open>How many connection attempts (\<open>wallet_requestPermissions\<close> requests) a list of
  requests holds, and how many the connector has sent so far.\<close>

definition attempts_in :: "request list \<Rightarrow> nat" where
  "attempts_in rs = length (filter (\<lambda>r. r = requestPermissions) rs)"

definition attempts :: "'w conn \<Rightarrow> nat" where
  "attempts s = attempts_in (requested s)"

text \<open>The requests sent after the first account read (\<open>eth_accounts\<close>) of a list.\<close>

definition after_first_read :: "request list \<Rightarrow> request list" where
  "after_first_read rs = tl (dropWhile (\<lambda>r. r \<noteq> Request ''eth_accounts'' (JArr [])) rs)"


definition new_requests :: "'w conn \<Rightarrow> 'w conn \<Rightarrow> request list" where
  "new_requests s s' = drop (length (requested s)) (requested s')"

text \<open>The names of a list of events.\<close>

definition names :: "(string \<times> jsval list) list \<Rightarrow> string list" where
  "names evs = map fst evs"

text \<open>The condition on the descriptor that the specification names: it is \<open>null\<close> or
  \<open>undefined\<close>, or one of the five required fields is \<open>undefined\<close>.\<close>

definition invalid_descriptor :: "jsval \<Rightarrow> bool" where
  "invalid_descriptor d =
     (d = JUndefined \<or> d = JNull \<or> opt_prop d ''chain_id'' = JUndefined
      \<or> opt_prop d ''chain_name'' = JUndefined \<or> opt_prop d ''currency_name'' = JUndefined
      \<or> opt_prop d ''currency_symbol'' = JUndefined \<or> opt_prop d ''rpc_url'' = JUndefined)"

section \<open>A concrete environment\<close>

text \<open>
  A provider whose state counts the requests it has answered. \<open>chain\<close>, \<open>accs\<close> and \<open>grant\<close>
  give, for each value of the counter, the chain id, the accounts and whether a
  permission, add, switch or revoke request is granted; \<open>answer\<close> is what every user
  function returns; \<open>wallet\<close> is \<open>window.ethereum\<close>. The contract method \<open>transfer\<close> returns
  a transaction whose \<open>wait\<close> fails; every other contract method reverts. \<open>new Contract\<close>
  throws unless the ABI is an array.
\<close>

definition example_env ::
  "jsval \<Rightarrow> (nat \<Rightarrow> int) \<Rightarrow> (nat \<Rightarrow> jsval) \<Rightarrow> (nat \<Rightarrow> bool) \<Rightarrow> jsval \<Rightarrow> nat env" where
  "example_env wallet chain accs grant answer =
     \<lparr>e_windowEthereum = (\<lambda>w. wallet),
      e_detectEthereumProvider = (\<lambda>w. (Returned JNull, w)),
      e_request = (\<lambda>r w. case r of Request m p \<Rightarrow>
         (if m = ''eth_chainId'' then Returned (JNum (chain w))
          else if m = ''eth_accounts'' then Returned (accs w)
          else if grant w then Returned JNull
          else Threw (JObj [(''code'', JNum 4001)]), Suc w)),
      e_toNumber = (\<lambda>v. case v of JNum n \<Rightarrow> Returned n | _ \<Rightarrow> Threw TypeError),
      e_toBeHex = (\<lambda>v. Returned v),
      e_leZero = (\<lambda>v. False),
      e_getSigner = (\<lambda>a w. (Returned (JObj [(''signer'', a)]), w)),
      e_call = (\<lambda>f args w. (Returned answer, w)),
      e_contractMethod = (\<lambda>c m ps cp w.
         (if m = ''transfer'' then Returned (JStr ''txn'') else Threw (JStr ''revert''), w)),
      e_wait = (\<lambda>t w. (Threw (JObj [(''info'', JObj [(''error'', JStr ''failed'')])]), w)),
      e_newContract = (\<lambda>address ABI runner. if isArray ABI then Returned () else Threw TypeError)\<rparr>"

definition example_network :: jsval where
  "example_network =
     JObj [(''chain_id'', JNum 97), (''chain_name'', JStr ''Testnet''),
           (''currency_name'', JStr ''BNB''), (''currency_symbol'', JStr ''tBNB''),
           (''rpc_url'', JStr ''https://rpc'')]"

text \<open>A connector set up for \<open>example_network\<close> with a provider found, allowing the wallet
  \<open>allowed\<close> and asking \<open>confirm\<close> before a retry.\<close>

definition example_conn :: "jsval \<Rightarrow> jsval \<Rightarrow> nat conn" where
  "example_conn allowed confirm =
     (fresh 0)\<lparr>p_isSetup := True, p_shouldNetworkData := example_network,
       p_shouldWalletAddress := allowed, p_execBeforeReconnect := confirm,
       p_browserProvider := JObj [], p_provider := BrowserProvider (JObj [])\<rparr>"

section \<open>Getters\<close>

text \<open>
  Claim C9. In every state of the connector, \<open>isWalletConnected()\<close> is true exactly when
  \<open>account()\<close> is not \<open>undefined\<close>, and \<open>account()\<close> is never \<open>null\<close>. The statement holds
  for every state, so for every reachable one, and every operation preserves it.
\<close>

theorem getters_consistent:
  "isWalletConnected s = (account s \<noteq> JUndefined) \<and> account s \<noteq> JNull"
  by (auto simp: isWalletConnected_def account_def coalesce_def nullish_def)

section \<open>The contract wrapper\<close>






section \<open>Validation of the network descriptor\<close>

lemma check_options_result:
  "\<not> nullish d \<Longrightarrow>
   (\<exists>e. check_options d requiredOptions s = (Threw e, s)) =
     (opt_prop d ''chain_id'' = JUndefined
      \<or> opt_prop d ''chain_name'' = JUndefined \<or> opt_prop d ''currency_name'' = JUndefined
      \<or> opt_prop d ''currency_symbol'' = JUndefined \<or> opt_prop d ''rpc_url'' = JUndefined)
   \<and> (check_options d requiredOptions s = (Returned (), s)) =
     (\<not> (opt_prop d ''chain_id'' = JUndefined
      \<or> opt_prop d ''chain_name'' = JUndefined \<or> opt_prop d ''currency_name'' = JUndefined
      \<or> opt_prop d ''currency_symbol'' = JUndefined \<or> opt_prop d ''rpc_url'' = JUndefined))"
  by (simp add: requiredOptions_def error_def throw_def jbind_def lift_def get_prop_def ret_def)

lemma check_throws_iff:
  "(\<exists>e. checkShouldNetworkDataIsCorrect s = (Threw e, s)) = invalid_descriptor (p_shouldNetworkData s)"
  using check_options_result[of "p_shouldNetworkData s" s]
  by (auto simp: checkShouldNetworkDataIsCorrect_def invalid_descriptor_def jbind_def read_def
      error_def throw_def nullish_def)

lemma check_returns_iff:
  "(checkShouldNetworkDataIsCorrect s = (Returned (), s)) = (\<not> invalid_descriptor (p_shouldNetworkData s))"
  using check_options_result[of "p_shouldNetworkData s" s]
  by (auto simp: checkShouldNetworkDataIsCorrect_def invalid_descriptor_def jbind_def read_def
      error_def throw_def nullish_def)

text \<open>A method throws from a state.\<close>

definition throws :: "('a, 'w) js \<Rightarrow> 'w conn \<Rightarrow> bool" where
  "throws m s = (\<exists>e. fst (m s) = Threw e)"

lemma throws_jbind:
  "(\<And>x s'. m s = (Returned x, s') \<Longrightarrow> throws (f x) s') \<Longrightarrow> throws (jbind m f) s"
  by (cases "m s"; cases "fst (m s)") (auto simp: throws_def jbind_def)

lemma throws_jbind1: "throws m s \<Longrightarrow> throws (jbind m f) s"
  by (cases "m s"; cases "fst (m s)") (auto simp: throws_def jbind_def)

lemma throws_check:
  "invalid_descriptor (p_shouldNetworkData s) \<Longrightarrow> throws checkShouldNetworkDataIsCorrect s"
  using check_throws_iff[of s] by (auto simp: throws_def)

lemma call_function_descriptor:
  "call_function env f args s = (r, s') \<Longrightarrow> p_shouldNetworkData s' = p_shouldNetworkData s"
  by (auto simp: call_function_def split: jsval.splits prod.splits)

lemma init_v1_throws:
  assumes "invalid_descriptor d"
  shows "throws (init_v1 env d a cb auto) s"
  unfolding init_v1_def
  apply (rule throws_jbind)
  apply (rule throws_jbind)
  apply (rule throws_jbind)
  apply (rule throws_jbind)
  apply (rule throws_jbind1)
  apply (rule throws_check)
  using assms
  apply (auto simp: read_def ret_def modify_def error_def throw_def
      dest!: call_function_descriptor split: if_splits)
  done

lemma init_v2_throws:
  assumes "invalid_descriptor (p_shouldNetworkData s)"
  shows "throws (init_v2 env auto) s"
  unfolding init_v2_def
  apply (rule throws_jbind)
  apply (rule throws_jbind)
  apply (rule throws_jbind)
  apply (rule throws_jbind)
  apply (rule throws_jbind)
  apply (rule throws_jbind1)
  apply (rule throws_check)
  using assms
  apply (auto simp: read_def ret_def modify_def error_def throw_def
      dest!: call_function_descriptor split: if_splits)
  done

text \<open>
  Claim C8, as stated: \<open>init\<close> throws exactly when the descriptor is \<open>null\<close> or
  \<open>undefined\<close> or one of the five required fields is \<open>undefined\<close>. It fails from right to
  left: with a complete descriptor and no wallet provider in the page, \<open>init\<close> of the
  first version throws \<open>You should install MetaMask.\<close>
\<close>

theorem init_throws_counterexample:
  "\<not> invalid_descriptor example_network
   \<and> fst (init_v1 (example_env JUndefined (\<lambda>w. 97) (\<lambda>w. JArr []) (\<lambda>w. True) JNull)
            example_network JNull JNull (JBool False) (fresh 0))
       = Threw (JStr ''ERROR - EthersWalletConnector: You should install MetaMask.'')"
  by code_simp

text \<open>
  Claim C8, amended. The validation of the descriptor
  (\<open>#checkShouldNetworkDataIsCorrect\<close>, which \<open>init\<close> runs) throws exactly when the
  descriptor is \<open>null\<close> or \<open>undefined\<close> or one of \<open>chain_id\<close>, \<open>chain_name\<close>,
  \<open>currency_name\<close>, \<open>currency_symbol\<close>, \<open>rpc_url\<close> is \<open>undefined\<close>, and returns otherwise,
  whatever the explorer URL and whatever the types of the fields; it leaves the state
  as it is. Whenever that condition holds, \<open>init\<close> throws, in both versions (the second
  validates the descriptor given to \<open>setup\<close>).
\<close>

theorem descriptor_validation:
  "((\<exists>e. checkShouldNetworkDataIsCorrect s = (Threw e, s)) = invalid_descriptor (p_shouldNetworkData s))
   \<and> ((checkShouldNetworkDataIsCorrect s = (Returned (), s)) = (\<not> invalid_descriptor (p_shouldNetworkData s)))
   \<and> (invalid_descriptor d \<longrightarrow> (\<exists>e. fst (init_v1 env d a cb auto s) = Threw e))
   \<and> (invalid_descriptor (p_shouldNetworkData s) \<longrightarrow> (\<exists>e. fst (init_v2 env auto s) = Threw e))"
  using check_throws_iff[of s] check_returns_iff[of s] init_v1_throws[of d env a cb auto s]
    init_v2_throws[of s env auto]
  by (simp add: throws_def)

theorem descriptor_validation_witness:
  "invalid_descriptor (JObj [(''chain_id'', JNum 97)])
   \<and> (\<exists>e. fst (init_v1 (example_env (JObj []) (\<lambda>w. 97) (\<lambda>w. JArr []) (\<lambda>w. True) JNull)
                 (JObj [(''chain_id'', JNum 97)]) JNull JNull (JBool False)
                 ((fresh 0)\<lparr>p_isSetup := True, p_shouldNetworkData := JObj [(''chain_id'', JNum 97)]\<rparr>))
            = Threw e)
   \<and> (\<exists>e. fst (init_v2 (example_env (JObj []) (\<lambda>w. 97) (\<lambda>w. JArr []) (\<lambda>w. True) JNull) (JBool False)
                 ((fresh 0)\<lparr>p_isSetup := True, p_shouldNetworkData := JObj [(''chain_id'', JNum 97)]\<rparr>))
            = Threw e)"
proof -
  have bad: "invalid_descriptor (JObj [(''chain_id'', JNum 97)])"
    by (simp add: invalid_descriptor_def)
  then have bad': "invalid_descriptor (p_shouldNetworkData
      ((fresh (0::nat))\<lparr>p_isSetup := True, p_shouldNetworkData := JObj [(''chain_id'', JNum 97)]\<rparr>))"
    by simp
  show ?thesis
    using bad bad'
      descriptor_validation[of "(fresh (0::nat))\<lparr>p_isSetup := True, p_shouldNetworkData := JObj [(''chain_id'', JNum 97)]\<rparr>"
        "JObj [(''chain_id'', JNum 97)]" "example_env (JObj []) (\<lambda>w. 97) (\<lambda>w. JArr []) (\<lambda>w. True) JNull"
        JNull JNull "JBool False"]
    by blast
qed

section \<open>Relations that every step of a method keeps\<close>

text \<open>\<open>keeps R m\<close>: the state after \<open>m\<close> is related by \<open>R\<close> to the state before it, whether
  \<open>m\<close> returns or throws.\<close>

definition keeps :: "('w conn \<Rightarrow> 'w conn \<Rightarrow> bool) \<Rightarrow> ('a, 'w) js \<Rightarrow> bool" where
  "keeps R m = (\<forall>s. R s (snd (m s)))"

definition preorder :: "('s \<Rightarrow> 's \<Rightarrow> bool) \<Rightarrow> bool" where
  "preorder R = ((\<forall>s. R s s) \<and> (\<forall>a b c. R a b \<longrightarrow> R b c \<longrightarrow> R a c))"

lemma keepsD: "keeps R m \<Longrightarrow> m s = (r, s') \<Longrightarrow> R s s'"
  by (auto simp: keeps_def dest: spec[of _ s])

lemma keeps_snd: "keeps R m \<Longrightarrow> R s (snd (m s))"
  by (simp add: keeps_def)


lemma preorder_trans: "preorder R \<Longrightarrow> R a b \<Longrightarrow> R b c \<Longrightarrow> R a c"
  unfolding preorder_def by blast

lemma keeps_ret: "preorder R \<Longrightarrow> keeps R (ret x)"
  by (simp add: keeps_def preorder_def ret_def)

lemma keeps_throw: "preorder R \<Longrightarrow> keeps R (throw e)"
  by (simp add: keeps_def preorder_def throw_def)

lemma keeps_error: "preorder R \<Longrightarrow> keeps R (error msg)"
  by (simp add: error_def keeps_throw)

lemma keeps_lift: "preorder R \<Longrightarrow> keeps R (lift r)"
  by (simp add: keeps_def preorder_def lift_def)

lemma keeps_read: "preorder R \<Longrightarrow> keeps R (read f)"
  by (simp add: keeps_def preorder_def read_def)

lemma keeps_jbind:
  assumes "preorder R" and "keeps R m" and "\<And>x. keeps R (f x)"
  shows "keeps R (jbind m f)"
proof -
  have "R s (snd (jbind m f s))" for s
  proof (cases "m s")
    case (Pair r s1)
    have 1: "R s s1" using assms(2) Pair by (rule keepsD)
    show ?thesis
    proof (cases r)
      case (Returned x)
      have "R s1 (snd (f x s1))" using assms(3) by (simp add: keeps_def)
      with 1 assms(1) have "R s (snd (f x s1))" by (blast intro: preorder_trans)
      then show ?thesis using Pair Returned by (simp add: jbind_def)
    next
      case (Threw e)
      then show ?thesis using Pair 1 by (simp add: jbind_def)
    qed
  qed
  then show ?thesis by (simp add: keeps_def)
qed

lemma keeps_try_catch:
  assumes "preorder R" and "keeps R m" and "\<And>e. keeps R (h e)"
  shows "keeps R (try_catch m h)"
proof -
  have "R s (snd (try_catch m h s))" for s
  proof (cases "m s")
    case (Pair r s1)
    have 1: "R s s1" using assms(2) Pair by (rule keepsD)
    show ?thesis
    proof (cases r)
      case (Returned x)
      then show ?thesis using Pair 1 by (simp add: try_catch_def)
    next
      case (Threw e)
      have "R s1 (snd (h e s1))" using assms(3) by (simp add: keeps_def)
      with 1 assms(1) have "R s (snd (h e s1))" by (blast intro: preorder_trans)
      then show ?thesis using Pair Threw by (simp add: try_catch_def)
    qed
  qed
  then show ?thesis by (simp add: keeps_def)
qed

lemma keeps_if: "(c \<Longrightarrow> keeps R a) \<Longrightarrow> (\<not> c \<Longrightarrow> keeps R b) \<Longrightarrow> keeps R (if c then a else b)"
  by simp

lemma keeps_case_option:
  "keeps R a \<Longrightarrow> (\<And>x. keeps R (b x)) \<Longrightarrow> keeps R (case v of None \<Rightarrow> a | Some x \<Rightarrow> b x)"
  by (cases v) simp_all

lemma keeps_unawaited: "keeps R m \<Longrightarrow> keeps R (unawaited m)"
  by (simp add: keeps_def unawaited_def)

lemma keeps_modify: "(\<And>s. R s (f s)) \<Longrightarrow> keeps R (modify f)"
  by (simp add: keeps_def modify_def)

lemmas keeps_rules = keeps_ret keeps_throw keeps_error keeps_lift keeps_read keeps_jbind
  keeps_try_catch keeps_if keeps_case_option keeps_unawaited


section \<open>The confirmation before a retry\<close>

lemma reconnect_declined:
  assumes "0 < n" "n \<le> 3" "p_execBeforeReconnect s = JFun f"
    "e_call env f [] (world s) = (Returned (JBool False), w')"
  shows "reconnect env name args n s =
    (Returned (False, JNull, n),
     s\<lparr>emitted := emitted s @ [(name, args)], invoked := invoked s @ [f], world := w'\<rparr>)"
  using assms
  by (simp add: reconnect_def shouldRetry_def jbind_def read_def call_function_def ret_def emit_def)

lemma reconnect_confirmed:
  assumes "0 < n" "n \<le> 3" "p_execBeforeReconnect s = JFun f"
    "e_call env f [] (world s) = (Returned v, w')" "v \<noteq> JBool False"
  shows "reconnect env name args n s =
    connect_attempt env n (s\<lparr>invoked := invoked s @ [f], world := w'\<rparr>)"
  using assms
  by (cases v) (simp_all add: reconnect_def shouldRetry_def jbind_def read_def call_function_def ret_def)

lemma reconnect_unguarded:
  assumes "0 < n" "n \<le> 3" "\<not> is_function (p_execBeforeReconnect s)"
  shows "reconnect env name args n s = connect_attempt env n s"
  using assms
  by (simp add: reconnect_def shouldRetry_def jbind_def read_def ret_def)

lemma while_declined:
  assumes "0 < n" "n \<le> 3" "p_execBeforeReconnect s = JFun f"
    "e_call env f [] (world s) = (Returned (JBool False), w')" "cond accounts s = Returned True"
  shows "while_reconnect env cond name fa accounts n s =
    (Returned JNull,
     s\<lparr>emitted := emitted s @ [(name, fa s)], invoked := invoked s @ [f], world := w'\<rparr>)"
  using assms reconnect_declined[OF assms(1-4), of name "fa s"]
  by (subst while_reconnect.simps) simp

text \<open>
  Claim C5. In a call of \<open>reconnect\<close> with \<open>0 < tryConnectCount \<le> 3\<close>:
  \<^item> if \<open>#execBeforeReconnect\<close> is a function, it is called (with no argument); when it
    returns \<open>false\<close>, \<open>reconnect\<close> emits the failure event, sets \<open>accounts\<close> to \<open>null\<close>,
    returns \<open>false\<close> without a connection attempt, and the loop around it stops;
  \<^item> when it returns anything else (\<open>true\<close> or a value that is not a boolean), the
    connection attempt is made, from the state the callback left;
  \<^item> if \<open>#execBeforeReconnect\<close> is not a function, the connection attempt is made at once.
\<close>

theorem confirm_gates_retry:
  assumes "0 < n" and "n \<le> 3"
  shows "(\<forall>f w'. p_execBeforeReconnect s = JFun f
              \<and> e_call env f [] (world s) = (Returned (JBool False), w') \<longrightarrow>
            reconnect env name args n s =
              (Returned (False, JNull, n),
               s\<lparr>emitted := emitted s @ [(name, args)], invoked := invoked s @ [f], world := w'\<rparr>)
            \<and> (cond accounts s = Returned True \<longrightarrow>
                 while_reconnect env cond name fa accounts n s =
                   (Returned JNull,
                    s\<lparr>emitted := emitted s @ [(name, fa s)], invoked := invoked s @ [f],
                      world := w'\<rparr>)))
       \<and> (\<forall>f v w'. p_execBeforeReconnect s = JFun f
              \<and> e_call env f [] (world s) = (Returned v, w') \<and> v \<noteq> JBool False \<longrightarrow>
            reconnect env name args n s =
              connect_attempt env n (s\<lparr>invoked := invoked s @ [f], world := w'\<rparr>))
       \<and> (\<not> is_function (p_execBeforeReconnect s) \<longrightarrow>
            reconnect env name args n s = connect_attempt env n s)"
  using assms
  by (auto simp: reconnect_declined while_declined reconnect_confirmed reconnect_unguarded)

theorem confirm_gates_retry_witness:
  "reconnect (example_env (JObj []) (\<lambda>w. 97) (\<lambda>w. JArr []) (\<lambda>w. True) (JBool False))
      ''invalidWallet'' [] 1 (example_conn JNull (JFun 5))
     = (Returned (False, JNull, 1),
        (example_conn JNull (JFun 5))\<lparr>emitted := [(''invalidWallet'', [])], invoked := [5]\<rparr>)
   \<and> reconnect (example_env (JObj []) (\<lambda>w. 97) (\<lambda>w. JArr []) (\<lambda>w. True) (JStr ''yes''))
      ''invalidWallet'' [] 1 (example_conn JNull (JFun 5))
     = (Returned (True, JArr [], 2),
        (example_conn JNull (JFun 5))\<lparr>invoked := [5],
           requested := [requestPermissions, Request ''eth_accounts'' (JArr [])], world := 2\<rparr>)
   \<and> reconnect (example_env (JObj []) (\<lambda>w. 97) (\<lambda>w. JArr []) (\<lambda>w. True) (JBool False))
      ''invalidWallet'' [] 1 (example_conn JNull JNull)
     = (Returned (True, JArr [], 2),
        (example_conn JNull JNull)\<lparr>
           requested := [requestPermissions, Request ''eth_accounts'' (JArr [])], world := 2\<rparr>)"
proof -
  let ?no = "example_env (JObj []) (\<lambda>w. 97) (\<lambda>w. JArr []) (\<lambda>w. True) (JBool False)"
  let ?yes = "example_env (JObj []) (\<lambda>w. 97) (\<lambda>w. JArr []) (\<lambda>w. True) (JStr ''yes'')"
  let ?s = "example_conn JNull (JFun 5)"
  let ?t = "example_conn JNull JNull"
  have n: "(0::nat) < 1" "(1::nat) \<le> 3"
    by simp_all
  have cb: "p_execBeforeReconnect ?s = JFun 5" "\<not> is_function (p_execBeforeReconnect ?t)"
    by (simp_all add: example_conn_def)
  have no: "e_call ?no 5 [] (world ?s) = (Returned (JBool False), 0)"
    by (simp add: example_env_def example_conn_def fresh_def)
  have yes: "e_call ?yes 5 [] (world ?s) = (Returned (JStr ''yes''), 0)" "JStr ''yes'' \<noteq> JBool False"
    by (simp_all add: example_env_def example_conn_def fresh_def)
  have attempt1: "connect_attempt ?yes 1 (?s\<lparr>invoked := invoked ?s @ [5], world := 0\<rparr>)
      = (Returned (True, JArr [], 2),
         ?s\<lparr>invoked := [5], requested := [requestPermissions, Request ''eth_accounts'' (JArr [])],
            world := 2\<rparr>)"
    by (simp add: connect_attempt_def requestConnect_def getCurrentAccounts_def provider_request_def
        try_catch_def jbind_def ret_def example_env_def example_conn_def fresh_def
        requestPermissions_def numeral_2_eq_2)
  have attempt2: "connect_attempt ?no 1 ?t
      = (Returned (True, JArr [], 2),
         ?t\<lparr>requested := [requestPermissions, Request ''eth_accounts'' (JArr [])], world := 2\<rparr>)"
    by (simp add: connect_attempt_def requestConnect_def getCurrentAccounts_def provider_request_def
        try_catch_def jbind_def ret_def example_env_def example_conn_def fresh_def
        requestPermissions_def numeral_2_eq_2)
  have 1: "reconnect ?no ''invalidWallet'' [] 1 ?s
      = (Returned (False, JNull, 1),
         ?s\<lparr>emitted := emitted ?s @ [(''invalidWallet'', [])], invoked := invoked ?s @ [5], world := 0\<rparr>)"
    using confirm_gates_retry[OF n, of ?s ?no "''invalidWallet''" "[]"] cb(1) no by blast
  have 2: "reconnect ?yes ''invalidWallet'' [] 1 ?s
      = connect_attempt ?yes 1 (?s\<lparr>invoked := invoked ?s @ [5], world := 0\<rparr>)"
    using confirm_gates_retry[OF n, of ?s ?yes "''invalidWallet''" "[]"] cb(1) yes by blast
  have 3: "reconnect ?no ''invalidWallet'' [] 1 ?t = connect_attempt ?no 1 ?t"
    using confirm_gates_retry[OF n, of ?t ?no "''invalidWallet''" "[]"] cb(2) by blast
  have same: "?s\<lparr>emitted := emitted ?s @ [(''invalidWallet'', [])], invoked := invoked ?s @ [5], world := 0\<rparr>
      = ?s\<lparr>emitted := [(''invalidWallet'', [])], invoked := [5]\<rparr>"
    by (simp add: example_conn_def fresh_def)
  show ?thesis
    using 1 2 3 attempt1 attempt2 same by simp
qed

section \<open>What the network check and the retry loop leave alone\<close>

text \<open>
  \<open>frame P Q s s'\<close>: from \<open>s\<close> to \<open>s'\<close> the private fields other than \<open>#currentChainId\<close>
  are unchanged, as are the listeners, the timers and the number of contracts; the new
  events satisfy \<open>P\<close> and the new requests satisfy \<open>Q\<close>.
\<close>

definition frame ::
  "((string \<times> jsval list) list \<Rightarrow> bool) \<Rightarrow> (request list \<Rightarrow> bool) \<Rightarrow> 'w conn \<Rightarrow> 'w conn \<Rightarrow> bool" where
  "frame P Q s s' =
     (p_account s' = p_account s \<and> p_signer s' = p_signer s
      \<and> p_shouldWalletAddress s' = p_shouldWalletAddress s
      \<and> p_shouldNetworkData s' = p_shouldNetworkData s
      \<and> p_execBeforeReconnect s' = p_execBeforeReconnect s
      \<and> p_browserProvider s' = p_browserProvider s \<and> p_provider s' = p_provider s
      \<and> p_isSetup s' = p_isSetup s \<and> p_isInitalized s' = p_isInitalized s
      \<and> p_signerContract s' = p_signerContract s \<and> p_providerContract s' = p_providerContract s
      \<and> allocated s' = allocated s \<and> listeners s' = listeners s \<and> timers s' = timers s
      \<and> (\<exists>evs. emitted s' = emitted s @ evs \<and> P evs)
      \<and> (\<exists>rs. requested s' = requested s @ rs \<and> Q rs))"

text \<open>A property of a list that holds of the empty list and of every concatenation of
  lists that have it.\<close>

definition closed :: "('a list \<Rightarrow> bool) \<Rightarrow> bool" where
  "closed P = (P [] \<and> (\<forall>xs ys. P xs \<longrightarrow> P ys \<longrightarrow> P (xs @ ys)))"

lemma preorder_frame:
  assumes "closed P" and "closed Q"
  shows "preorder (frame P Q)"
proof -
  have refl: "frame P Q s s" for s :: "'a conn"
    using assms by (simp add: frame_def closed_def)
  have trans: "frame P Q a c" if ab: "frame P Q a b" and bc: "frame P Q b c" for a b c :: "'a conn"
  proof -
    obtain e1 r1 where 1: "emitted b = emitted a @ e1" "P e1" "requested b = requested a @ r1" "Q r1"
      using ab by (auto simp: frame_def)
    obtain e2 r2 where 2: "emitted c = emitted b @ e2" "P e2" "requested c = requested b @ r2" "Q r2"
      using bc by (auto simp: frame_def)
    have "emitted c = emitted a @ (e1 @ e2)" "P (e1 @ e2)" "requested c = requested a @ (r1 @ r2)"
      "Q (r1 @ r2)"
      using 1 2 assms by (auto simp: closed_def)
    then have "(\<exists>evs. emitted c = emitted a @ evs \<and> P evs) \<and> (\<exists>rs. requested c = requested a @ rs \<and> Q rs)"
      by blast
    then show ?thesis
      using ab bc by (simp add: frame_def)
  qed
  show ?thesis
    unfolding preorder_def using refl trans by blast
qed

lemma frame_emit: "closed Q \<Longrightarrow> P [(name, args)] \<Longrightarrow> keeps (frame P Q) (emit name args)"
  by (simp add: keeps_def emit_def frame_def closed_def)

lemma frame_request: "closed P \<Longrightarrow> Q [] \<Longrightarrow> Q [r] \<Longrightarrow> keeps (frame P Q) (provider_request env r)"
  by (auto simp: keeps_def provider_request_def frame_def closed_def split: prod.splits)

lemma frame_call: "closed P \<Longrightarrow> closed Q \<Longrightarrow> keeps (frame P Q) (call_function env f args)"
  by (auto simp: keeps_def call_function_def frame_def closed_def split: prod.splits jsval.splits)

lemma frame_chain: "closed P \<Longrightarrow> closed Q \<Longrightarrow> frame P Q s (s\<lparr>p_currentChainId := c\<rparr>)"
  by (simp add: frame_def closed_def)

text \<open>The events of the network check and of the loop are not \<open>walletConnected\<close>; the
  requests of the network check are neither account reads nor connection attempts.\<close>

definition network_events :: "((string \<times> jsval list) list \<Rightarrow> bool) \<Rightarrow> bool" where
  "network_events P = (closed P \<and> (\<forall>name args. name \<noteq> ''walletConnected'' \<longrightarrow> P [(name, args)]))"

definition network_requests :: "(request list \<Rightarrow> bool) \<Rightarrow> bool" where
  "network_requests Q =
     (closed Q \<and> (\<forall>m p. m \<noteq> ''eth_accounts'' \<longrightarrow> m \<noteq> ''wallet_requestPermissions'' \<longrightarrow> Q [Request m p]))"

lemma network_eventsD:
  "network_events P \<Longrightarrow> closed P" "network_events P \<Longrightarrow> name \<noteq> ''walletConnected'' \<Longrightarrow> P [(name, args)]"
  by (simp_all add: network_events_def)

lemma network_requestsD:
  "network_requests Q \<Longrightarrow> closed Q" "network_requests Q \<Longrightarrow> Q []"
  "network_requests Q \<Longrightarrow> m \<noteq> ''eth_accounts'' \<Longrightarrow> m \<noteq> ''wallet_requestPermissions'' \<Longrightarrow> Q [Request m p]"
  by (simp_all add: network_requests_def closed_def)

lemma frame_read_chain_id:
  assumes "network_events P" and "network_requests Q"
  shows "keeps (frame P Q) (read_chain_id env)"
  unfolding read_chain_id_def
  by (intro keeps_rules keeps_modify frame_request frame_chain preorder_frame
      network_eventsD[OF assms(1)] network_requestsD[OF assms(2)]) simp_all

lemma frame_chain_hex:
  assumes "network_events P" and "network_requests Q"
  shows "keeps (frame P Q) (chain_hex env)"
  unfolding chain_hex_def
  by (intro keeps_rules preorder_frame network_eventsD[OF assms(1)] network_requestsD[OF assms(2)])

lemma frame_network_params:
  assumes "network_events P" and "network_requests Q"
  shows "keeps (frame P Q) (network_params env)"
  unfolding network_params_def
  by (intro keeps_rules preorder_frame frame_chain_hex assms
      network_eventsD[OF assms(1)] network_requestsD[OF assms(2)])

lemma frame_addOrSwitchNetwork_v1:
  assumes "network_events P" and "network_requests Q"
  shows "keeps (frame P Q) (addOrSwitchNetwork_v1 env)"
  unfolding addOrSwitchNetwork_v1_def try_add_v1_def
  by (intro keeps_rules preorder_frame frame_network_params frame_read_chain_id frame_request
      frame_emit assms network_eventsD[OF assms(1)] network_requestsD[OF assms(2)]) simp_all

lemma frame_detectNetwork_v1:
  assumes "network_events P" and "network_requests Q"
  shows "keeps (frame P Q) (detectNetwork_v1 env True)"
  unfolding detectNetwork_v1_def
  by (intro keeps_rules preorder_frame frame_addOrSwitchNetwork_v1 frame_read_chain_id assms
      network_eventsD[OF assms(1)] network_requestsD[OF assms(2)]) simp_all

lemma frame_try_add_v2:
  assumes "network_events P" and "network_requests Q"
  shows "keeps (frame P Q) (try_add_v2 env params)"
  unfolding try_add_v2_def
  by (intro keeps_rules preorder_frame frame_request frame_emit
      network_eventsD[OF assms(1)] network_requestsD[OF assms(2)]) simp_all

lemma frame_try_switch_v2:
  assumes "network_events P" and "network_requests Q"
  shows "keeps (frame P Q) (try_switch_v2 env params)"
  unfolding try_switch_v2_def
  by (intro keeps_rules preorder_frame frame_request frame_emit frame_chain_hex frame_try_add_v2 assms
      network_eventsD[OF assms(1)] network_requestsD[OF assms(2)]) simp_all

lemma frame_addOrSwitchNetwork_v2:
  assumes "network_events P" and "network_requests Q"
  shows "keeps (frame P Q) (addOrSwitchNetwork_v2 env)"
  unfolding addOrSwitchNetwork_v2_def
  by (intro keeps_rules preorder_frame frame_network_params frame_read_chain_id frame_try_switch_v2
      frame_emit assms network_eventsD[OF assms(1)] network_requestsD[OF assms(2)]) simp_all

lemma frame_detectNetwork_v2:
  assumes "network_events P" and "network_requests Q"
  shows "keeps (frame P Q) (detectNetwork_v2 env True)"
  unfolding detectNetwork_v2_def
  by (intro keeps_rules preorder_frame frame_addOrSwitchNetwork_v2 frame_read_chain_id assms
      network_eventsD[OF assms(1)] network_requestsD[OF assms(2)]) simp_all

lemma frame_checkIfAllowed:
  assumes "network_events P" and "network_requests Q"
  shows "keeps (frame P Q) checkIfAllowed"
  unfolding checkIfAllowed_def
  by (intro keeps_rules preorder_frame frame_emit
      network_eventsD[OF assms(1)] network_requestsD[OF assms(2)]) simp_all

lemma frame_requestConnect:
  assumes "closed P" and "closed Q" and "Q [requestPermissions]"
  shows "keeps (frame P Q) (requestConnect env)"
  unfolding requestConnect_def
  using assms
  by (intro keeps_rules preorder_frame frame_request) (simp_all add: closed_def)






lemma frame_force_connect:
  assumes "closed P" and "closed Q" and "Q [requestPermissions]"
  shows "keeps (frame P Q) (force_connect env f)"
  unfolding force_connect_def
  by (intro keeps_rules preorder_frame frame_requestConnect frame_call assms)













section \<open>The network check of \<open>connectWallet\<close>\<close>

lemma jbind_cases:
  assumes "jbind m f s = (r, s')"
  obtains (returned) x s1 where "m s = (Returned x, s1)" and "f x s1 = (r, s')"
    | (threw) e where "m s = (Threw e, s')" and "r = Threw e"
proof (cases "m s")
  case (Pair r1 s1)
  show ?thesis
  proof (cases r1)
    case (Returned x)
    then show ?thesis using Pair assms returned by (simp add: jbind_def)
  next
    case (Threw e)
    then show ?thesis using Pair assms threw by (auto simp: jbind_def)
  qed
qed



lemma read_chain_id_Returned:
  "read_chain_id env s = (Returned x, s1) \<Longrightarrow> p_shouldNetworkData s1 = p_shouldNetworkData s"
  by (auto simp: read_chain_id_def jbind_def lift_def modify_def provider_request_def
      split: prod.splits outcome.splits if_splits)


















section \<open>The cap on connection attempts\<close>

text \<open>\<open>sent Q s s'\<close>: the requests sent from \<open>s\<close> to \<open>s'\<close> satisfy \<open>Q\<close>.\<close>

definition sent :: "(request list \<Rightarrow> bool) \<Rightarrow> 'w conn \<Rightarrow> 'w conn \<Rightarrow> bool" where
  "sent Q s s' = (\<exists>rs. requested s' = requested s @ rs \<and> Q rs)"

text \<open>At most \<open>k\<close> connection attempts.\<close>

definition few :: "nat \<Rightarrow> request list \<Rightarrow> bool" where
  "few k rs = (attempts_in rs \<le> k)"

text \<open>No account read.\<close>

definition no_reads :: "request list \<Rightarrow> bool" where
  "no_reads rs = (Request ''eth_accounts'' (JArr []) \<notin> set rs)"

definition any_events :: "(string \<times> jsval list) list \<Rightarrow> bool" where
  "any_events evs = True"

lemma attempts_in_simps:
  "attempts_in [] = 0" "attempts_in (xs @ ys) = attempts_in xs + attempts_in ys"
  "attempts_in [requestPermissions] = 1" "attempts_in [Request ''eth_accounts'' (JArr [])] = 0"
  by (simp_all add: attempts_in_def requestPermissions_def)

lemma closed_few0: "closed (few 0)"
  by (simp add: closed_def few_def attempts_in_simps)

lemma closed_any_events: "closed any_events"
  by (simp add: closed_def any_events_def)

lemma network_events_any: "network_events any_events"
  by (simp add: network_events_def closed_def any_events_def)

lemma network_requests_no_reads: "network_requests no_reads"
  by (simp add: network_requests_def closed_def no_reads_def)

lemma frame_sent: "frame P Q s s' \<Longrightarrow> sent Q s s'"
  by (simp add: frame_def sent_def)

lemma keeps_frame_sent: "keeps (frame P Q) m \<Longrightarrow> keeps (sent Q) m"
  by (auto simp: keeps_def intro: frame_sent)

lemma preorder_sent: "closed Q \<Longrightarrow> preorder (sent Q)"
  unfolding preorder_def sent_def closed_def
  by (metis append.assoc append_Nil2)

lemma sent_few_trans: "sent (few a) s s1 \<Longrightarrow> sent (few b) s1 s2 \<Longrightarrow> sent (few (a + b)) s s2"
  by (auto simp: sent_def few_def attempts_in_simps)

lemma sent_few_mono: "sent (few a) s s' \<Longrightarrow> a \<le> b \<Longrightarrow> sent (few b) s s'"
  by (auto simp: sent_def few_def)

lemma keeps_jbind_few:
  assumes "keeps (sent (few a)) m" and "\<And>x. keeps (sent (few b)) (f x)"
  shows "keeps (sent (few (a + b))) (jbind m f)"
proof -
  have "sent (few (a + b)) s (snd (jbind m f s))" for s
  proof (cases "m s")
    case (Pair r s1)
    have 1: "sent (few a) s s1" using assms(1) Pair by (rule keepsD)
    show ?thesis
    proof (cases r)
      case (Returned x)
      have "sent (few b) s1 (snd (f x s1))" using assms(2) by (rule keeps_snd)
      with 1 have "sent (few (a + b)) s (snd (f x s1))" by (rule sent_few_trans)
      then show ?thesis using Pair Returned by (simp add: jbind_def)
    next
      case (Threw e)
      then show ?thesis using Pair sent_few_mono[OF 1, of "a + b"] by (simp add: jbind_def)
    qed
  qed
  then show ?thesis by (simp add: keeps_def)
qed

lemma few0_requestless:
  "keeps (sent (few 0)) (emit name args)"
  "keeps (sent (few 0)) (call_function env f args)"
  "keeps (sent (few 0)) (getSigner env a)"
  "keeps (sent (few 0)) (getCurrentAccounts env)"
  by (auto simp: keeps_def sent_def few_def attempts_in_simps emit_def call_function_def
      getSigner_def getCurrentAccounts_def provider_request_def split: prod.splits jsval.splits)

lemma few1_requestConnect: "keeps (sent (few 1)) (requestConnect env)"
  by (auto simp: keeps_def sent_def few_def attempts_in_simps requestConnect_def try_catch_def
      jbind_def ret_def provider_request_def split: prod.splits outcome.splits)

lemma few0_shouldRetry: "keeps (sent (few 0)) (shouldRetry env n)"
  unfolding shouldRetry_def
  by (intro keeps_rules preorder_sent closed_few0 few0_requestless)

lemma few1_connect_attempt: "keeps (sent (few 1)) (connect_attempt env n)"
proof -
  have "keeps (sent (few (1 + 0))) (connect_attempt env n)"
    unfolding connect_attempt_def
    by (intro keeps_jbind_few few1_requestConnect keeps_rules preorder_sent closed_few0
        few0_requestless)
  then show ?thesis by simp
qed

lemma few_reconnect:
  "keeps (sent (few (if n \<le> 3 then 1 else 0))) (reconnect env name args n)"
proof (cases "n \<le> 3")
  case True
  have "keeps (sent (few (0 + 1))) (reconnect env name args n)"
    unfolding reconnect_def
  proof (intro keeps_jbind_few few0_shouldRetry keeps_if)
    fix x :: bool
    have "keeps (sent (few 0)) (jbind (emit name args) (\<lambda>_. ret (False, JNull, n)))"
      by (intro keeps_rules preorder_sent closed_few0 few0_requestless)
    then show "keeps (sent (few 1)) (jbind (emit name args) (\<lambda>_. ret (False, JNull, n)))"
      by (auto simp: keeps_def intro: sent_few_mono)
    show "keeps (sent (few 1)) (connect_attempt env n)"
      by (rule few1_connect_attempt)
  qed
  then show ?thesis using True by simp
next
  case False
  then have "reconnect env name args n = jbind (emit name args) (\<lambda>_. ret (False, JNull, n))"
    by (simp add: reconnect_def shouldRetry_def jbind_def ret_def fun_eq_iff)
  moreover have "keeps (sent (few 0)) (jbind (emit name args) (\<lambda>_. ret (False, JNull, n)))"
    by (intro keeps_rules preorder_sent closed_few0 few0_requestless)
  ultimately show ?thesis using False by simp
qed

text \<open>From a count of \<open>n\<close>, the loop makes at most \<open>4 - n\<close> connection attempts.\<close>

lemma few_while_reconnect:
  "sent (few (4 - n)) s (snd (while_reconnect env cond name fa accounts n s))"
proof (induction env cond name fa accounts n s rule: while_reconnect.induct)
  case (1 env cond name fa accounts n s)
  have here: "sent (few (4 - n)) s s"
    by (simp add: sent_def few_def attempts_in_simps)
  show ?case
  proof (cases "cond accounts s")
    case (Threw e)
    then show ?thesis using here by (subst while_reconnect.simps) simp
  next
    case (Returned b)
    show ?thesis
    proof (cases b)
      case False
      then show ?thesis using Returned here by (subst while_reconnect.simps) simp
    next
      case True
      obtain r s1 where rec: "reconnect env name (fa s) n s = (r, s1)"
        by (cases "reconnect env name (fa s) n s")
      have step: "sent (few (if n \<le> 3 then 1 else 0)) s s1"
        using few_reconnect rec by (rule keepsD)
      then have step': "sent (few (4 - n)) s s1"
        by (rule sent_few_mono) auto
      show ?thesis
      proof (cases r)
        case (Threw e)
        then show ?thesis
          using Returned True rec step' by (subst while_reconnect.simps) simp
      next
        case inner: (Returned res)
        obtain ok accounts' n' where res: "res = (ok, accounts', n')"
          by (cases res) auto
        show ?thesis
        proof (cases ok)
          case False
          then show ?thesis
            using Returned True rec step' inner res by (subst while_reconnect.simps) simp
        next
          case ok: True
          have n': "n' = Suc n \<and> n \<le> 3"
            using rec inner res ok by (auto dest: reconnect_True)
          have "sent (few (4 - n')) s1 (snd (while_reconnect env cond name fa accounts' n' s1))"
            using Returned True rec inner res ok by (intro 1) auto
          with step have "sent (few ((if n \<le> 3 then 1 else 0) + (4 - n'))) s
              (snd (while_reconnect env cond name fa accounts' n' s1))"
            by (rule sent_few_trans)
          then have "sent (few (4 - n)) s (snd (while_reconnect env cond name fa accounts' n' s1))"
            using n' by (auto elim: sent_few_mono)
          then show ?thesis
            using Returned True rec inner res ok by (subst while_reconnect.simps) simp
        qed
      qed
    qed
  qed
qed

lemma dropWhile_no_reads:
  "no_reads xs \<Longrightarrow>
   dropWhile (\<lambda>r. r \<noteq> Request ''eth_accounts'' (JArr [])) (xs @ ys)
     = dropWhile (\<lambda>r. r \<noteq> Request ''eth_accounts'' (JArr [])) ys"
  by (induction xs) (auto simp: no_reads_def)

lemma after_first_read_none: "no_reads xs \<Longrightarrow> after_first_read xs = []"
  by (induction xs) (auto simp: no_reads_def after_first_read_def)

lemma after_first_read_split:
  "no_reads xs \<Longrightarrow> after_first_read (xs @ Request ''eth_accounts'' (JArr []) # ys) = ys"
  by (simp add: after_first_read_def dropWhile_no_reads)

lemma few4_acquire_accounts: "keeps (sent (few 4)) (acquire_accounts env wa accounts)"
proof -
  have loop: "keeps (sent (few 4)) (while_reconnect env cond name fa accounts 0)" for cond name fa
    using few_while_reconnect[of 0 _ env cond name fa accounts] by (simp add: keeps_def)
  have "keeps (sent (few (0 + 4))) (acquire_accounts env wa accounts)"
    unfolding acquire_accounts_def
    by (intro keeps_jbind_few keeps_if loop keeps_read preorder_sent closed_few0)
  then show ?thesis by simp
qed

lemma few0_adopt_account: "keeps (sent (few 0)) (adopt_account env accounts)"
  unfolding adopt_account_def account_index_def
  by (intro keeps_rules keeps_modify preorder_sent closed_few0 few0_requestless)
    (simp_all add: sent_def few_def attempts_in_simps)

lemma few4_after_read:
  "keeps (sent (few 4))
     (jbind (acquire_accounts env wa accounts) (\<lambda>accounts.
      jbind (adopt_account env accounts) (\<lambda>_. read p_account)))"
proof -
  have "keeps (sent (few (4 + 0)))
     (jbind (acquire_accounts env wa accounts) (\<lambda>accounts.
      jbind (adopt_account env accounts) (\<lambda>_. read p_account)))"
    by (intro keeps_jbind_few few4_acquire_accounts keeps_rules preorder_sent closed_few0
        few0_adopt_account)
  then show ?thesis by simp
qed

lemma getCurrentAccounts_requested:
  assumes "getCurrentAccounts env s = (r, s')"
  shows "requested s' = requested s @ [Request ''eth_accounts'' (JArr [])]
         \<or> (requested s' = requested s \<and> (\<exists>e. r = Threw e))"
  using assms
  by (auto simp: getCurrentAccounts_def provider_request_def split: if_splits prod.splits)

lemma no_reads_force_connect: "keeps (sent no_reads) (force_connect env f)"
  by (intro keeps_frame_sent[of any_events] frame_force_connect closed_any_events
      network_requestsD(1)[OF network_requests_no_reads])
    (simp add: no_reads_def requestPermissions_def)

lemma no_reads_append: "no_reads xs \<Longrightarrow> no_reads ys \<Longrightarrow> no_reads (xs @ ys)"
  by (simp add: no_reads_def)

text \<open>After the network check: whatever was sent before without an account read, at most
  four connection attempts follow the first account read.\<close>

lemma accounts_phase:
  assumes run: "connectWallet_accounts env wa f s = (r, s')" and pre: "no_reads pre"
  shows "\<exists>rs. requested s' = requested s @ rs \<and> attempts_in (after_first_read (pre @ rs)) \<le> 4"
  using run[unfolded connectWallet_accounts_def]
proof (cases rule: jbind_cases)
  case (threw e)
  then obtain rs0 where "requested s' = requested s @ rs0" "no_reads rs0"
    using keepsD[OF no_reads_force_connect] by (fastforce simp: sent_def)
  then show ?thesis
    using pre by (auto simp: after_first_read_none no_reads_append attempts_in_simps)
next
  case (returned connected s0)
  obtain rs0 where rs0: "requested s0 = requested s @ rs0" "no_reads rs0"
    using keepsD[OF no_reads_force_connect returned(1)] by (auto simp: sent_def)
  show ?thesis
  proof (cases connected)
    case False
    then have "requested s' = requested s0"
      using returned(2) by (auto simp: jbind_def emit_def ret_def)
    then show ?thesis
      using rs0 pre by (auto simp: after_first_read_none no_reads_append attempts_in_simps)
  next
    case True
    then have "jbind (getCurrentAccounts env) (\<lambda>accounts0.
       jbind (acquire_accounts env wa (if isArray accounts0 then accounts0 else JArr []))
         (\<lambda>accounts.
       jbind (adopt_account env accounts) (\<lambda>_.
       read p_account))) s0 = (r, s')"
      using returned(2) by simp
    then show ?thesis
    proof (cases rule: jbind_cases)
      case (threw e)
      then have "requested s' = requested s0 @ [Request ''eth_accounts'' (JArr [])]
          \<or> requested s' = requested s0"
        using getCurrentAccounts_requested by blast
      then show ?thesis
        using rs0 pre after_first_read_split[of "pre @ rs0" "[]"]
        by (auto simp: after_first_read_none no_reads_append attempts_in_simps)
    next
      case (returned accounts0 sA)
      have read: "requested sA = requested s0 @ [Request ''eth_accounts'' (JArr [])]"
        using getCurrentAccounts_requested[OF returned(1)] by auto
      obtain rest where rest: "requested s' = requested sA @ rest" "attempts_in rest \<le> 4"
        using keepsD[OF few4_after_read returned(2)] by (auto simp: sent_def few_def)
      have "requested s' = requested s @ (rs0 @ Request ''eth_accounts'' (JArr []) # rest)"
        using rs0 read rest by simp
      moreover have "after_first_read (pre @ rs0 @ Request ''eth_accounts'' (JArr []) # rest) = rest"
        using after_first_read_split[of "pre @ rs0" rest] pre rs0 by (simp add: no_reads_append)
      ultimately show ?thesis
        using rest by auto
    qed
  qed
qed

lemma gated_accounts:
  assumes run: "jbind net (\<lambda>ok. if \<not> ok then ret JUndefined
                                  else connectWallet_accounts env wa g) s = (r, s')"
    and net: "keeps (sent no_reads) net" and pre: "no_reads pre"
  shows "\<exists>rs. requested s' = requested s @ rs \<and> attempts_in (after_first_read (pre @ rs)) \<le> 4"
  using run
proof (cases rule: jbind_cases)
  case (threw e)
  then obtain rs0 where "requested s' = requested s @ rs0" "no_reads rs0"
    using keepsD[OF net] by (fastforce simp: sent_def)
  then show ?thesis
    using pre by (auto simp: after_first_read_none no_reads_append attempts_in_simps)
next
  case (returned ok s1)
  obtain rs0 where rs0: "requested s1 = requested s @ rs0" "no_reads rs0"
    using keepsD[OF net returned(1)] by (auto simp: sent_def)
  show ?thesis
  proof (cases ok)
    case False
    then have "requested s' = requested s1"
      using returned(2) by (auto simp: ret_def)
    then show ?thesis
      using rs0 pre by (auto simp: after_first_read_none no_reads_append attempts_in_simps)
  next
    case True
    then have "connectWallet_accounts env wa g s1 = (r, s')"
      using returned(2) by simp
    from accounts_phase[OF this, of "pre @ rs0"] pre rs0
    obtain rs where "requested s' = requested s1 @ rs"
      "attempts_in (after_first_read ((pre @ rs0) @ rs)) \<le> 4"
      by (auto simp: no_reads_append)
    then have "requested s' = requested s @ (rs0 @ rs)
        \<and> attempts_in (after_first_read (pre @ (rs0 @ rs))) \<le> 4"
      using rs0 by simp
    then show ?thesis by blast
  qed
qed

lemma new_requests_append: "requested s' = requested s @ rs \<Longrightarrow> new_requests s s' = rs"
  by (simp add: new_requests_def)

lemma capped_v1:
  "attempts_in (after_first_read (new_requests s (snd (connectWallet_v1 env f s)))) \<le> 4"
proof -
  obtain r s' where run: "connectWallet_v1 env f s = (r, s')"
    by (cases "connectWallet_v1 env f s")
  have net: "keeps (sent no_reads) (detectNetwork_v1 env True)"
    by (intro keeps_frame_sent[of any_events] frame_detectNetwork_v1 network_events_any
        network_requests_no_reads)
  have "no_reads []" by (simp add: no_reads_def)
  from gated_accounts[OF run[unfolded connectWallet_v1_def] net this]
  show ?thesis using run by (auto simp: new_requests_append)
qed

lemma capped_v2:
  "attempts_in (after_first_read (new_requests s (snd (connectWallet_v2 env f s)))) \<le> 4"
proof -
  obtain r s' where run: "connectWallet_v2 env f s = (r, s')"
    by (cases "connectWallet_v2 env f s")
  have net: "keeps (sent no_reads) (detectNetwork_v2 env True)"
    by (intro keeps_frame_sent[of any_events] frame_detectNetwork_v2 network_events_any
        network_requests_no_reads)
  have allowed: "keeps (sent no_reads) checkIfAllowed"
    by (intro keeps_frame_sent[of any_events] frame_checkIfAllowed network_events_any
        network_requests_no_reads)
  have "\<exists>rs. requested s' = requested s @ rs \<and> attempts_in (after_first_read rs) \<le> 4"
    using run[unfolded connectWallet_v2_def]
  proof (cases rule: jbind_cases)
    case (threw e)
    then obtain rs0 where "requested s' = requested s @ rs0" "no_reads rs0"
      using keepsD[OF allowed] by (fastforce simp: sent_def)
    then show ?thesis
      by (auto simp: after_first_read_none attempts_in_simps)
  next
    case (returned ok s0)
    obtain rs0 where rs0: "requested s0 = requested s @ rs0" "no_reads rs0"
      using keepsD[OF allowed returned(1)] by (auto simp: sent_def)
    show ?thesis
    proof (cases ok)
      case False
      then have "requested s' = requested s0"
        using returned(2) by (auto simp: ret_def)
      then show ?thesis
        using rs0 by (auto simp: after_first_read_none attempts_in_simps)
    next
      case True
      then have "jbind (detectNetwork_v2 env True) (\<lambda>ok. if \<not> ok then ret JUndefined
          else connectWallet_accounts env True (default_param f (JBool False))) s0 = (r, s')"
        using returned(2) by simp
      from gated_accounts[OF this net rs0(2)]
      obtain rs where "requested s' = requested s0 @ rs"
        "attempts_in (after_first_read (rs0 @ rs)) \<le> 4"
        by auto
      then have "requested s' = requested s @ (rs0 @ rs)
          \<and> attempts_in (after_first_read (rs0 @ rs)) \<le> 4"
        using rs0 by simp
      then show ?thesis by blast
    qed
  qed
  then show ?thesis using run by (auto simp: new_requests_append)
qed

lemma attempts_while_reconnect:
  "attempts (snd (while_reconnect env cond name fa accounts n s)) \<le> attempts s + (4 - n)"
  using few_while_reconnect[of n s env cond name fa accounts]
  by (auto simp: sent_def few_def attempts_def attempts_in_simps)

text \<open>
  Claim C1, as stated: after the initial account read, \<open>connectWallet\<close> makes at most 3
  further connection attempts. With a provider on the expected chain that grants every
  permission request and never reports an account, and no confirmation callback, the
  first version makes 4, and then emits \<open>failedToConnectWallet\<close>.
\<close>

theorem retry_cap_counterexample:
  "attempts_in (after_first_read (new_requests (example_conn JNull JNull)
      (snd (connectWallet_v1 (example_env (JObj []) (\<lambda>w. 97) (\<lambda>w. JArr []) (\<lambda>w. True) JNull)
              JUndefined (example_conn JNull JNull))))) = 4
   \<and> names (emitted (snd (connectWallet_v1
        (example_env (JObj []) (\<lambda>w. 97) (\<lambda>w. JArr []) (\<lambda>w. True) JNull)
        JUndefined (example_conn JNull JNull)))) = [''failedToConnectWallet'']"
  by code_simp

text \<open>
  Claim C1, amended. The retry loop is capped at 4 connection attempts, the first and up
  to 3 retries: in every execution of \<open>connectWallet\<close>, of either version, at most 4
  permission requests follow the first account read; the loop started with a count of
  \<open>n\<close> makes at most \<open>4 - n\<close> attempts; and the loop terminates (\<open>while_reconnect\<close> is a
  total function, its recursion decreasing \<open>4 - tryConnectCount\<close>).
\<close>

theorem retry_cap:
  "attempts_in (after_first_read (new_requests s (snd (connectWallet_v1 env f s)))) \<le> 4
   \<and> attempts_in (after_first_read (new_requests s (snd (connectWallet_v2 env f s)))) \<le> 4
   \<and> attempts (snd (while_reconnect env cond name fa accounts n s)) \<le> attempts s + (4 - n)"
  using capped_v1 capped_v2 attempts_while_reconnect by blast

theorem retry_cap_witness:
  "attempts_in (after_first_read (new_requests (example_conn JNull JNull)
      (snd (connectWallet_v2 (example_env (JObj []) (\<lambda>w. 97) (\<lambda>w. JArr []) (\<lambda>w. True) JNull)
              (JBool True) (example_conn JNull JNull))))) \<le> 4
   \<and> attempts (snd (connectWallet_v2 (example_env (JObj []) (\<lambda>w. 97) (\<lambda>w. JArr []) (\<lambda>w. True) JNull)
              (JBool True) (example_conn JNull JNull))) = 5"
proof -
  have "attempts (snd (connectWallet_v2 (example_env (JObj []) (\<lambda>w. 97) (\<lambda>w. JArr []) (\<lambda>w. True) JNull)
              (JBool True) (example_conn JNull JNull))) = 5"
    by code_simp
  then show ?thesis
    using retry_cap[of "example_conn JNull JNull"
        "example_env (JObj []) (\<lambda>w. 97) (\<lambda>w. JArr []) (\<lambda>w. True) JNull" "JBool True"]
    by blast
qed

section \<open>The allowed wallet address\<close>






























section \<open>What connecting and disconnecting leave alone\<close>

text \<open>
  \<open>settings s s'\<close>: from \<open>s\<close> to \<open>s'\<close> the configuration, the provider, the two contract
  caches, the listeners and the timers are unchanged. The account, the signer, the
  stored chain id, the events, the requests and the pending answers may differ.
\<close>

definition settings :: "'w conn \<Rightarrow> 'w conn \<Rightarrow> bool" where
  "settings s s' =
     (p_shouldWalletAddress s' = p_shouldWalletAddress s
      \<and> p_shouldNetworkData s' = p_shouldNetworkData s
      \<and> p_execBeforeReconnect s' = p_execBeforeReconnect s
      \<and> p_browserProvider s' = p_browserProvider s \<and> p_provider s' = p_provider s
      \<and> p_isSetup s' = p_isSetup s \<and> p_isInitalized s' = p_isInitalized s
      \<and> p_signerContract s' = p_signerContract s \<and> p_providerContract s' = p_providerContract s
      \<and> allocated s' = allocated s \<and> listeners s' = listeners s \<and> timers s' = timers s)"

lemma preorder_settings: "preorder settings"
  by (simp add: preorder_def settings_def)

lemma keeps_weaken: "keeps R m \<Longrightarrow> (\<And>s s'. R s s' \<Longrightarrow> R' s s') \<Longrightarrow> keeps R' m"
  by (simp add: keeps_def)

lemma settings_prims:
  "keeps settings (provider_request env r)"
  "keeps settings (call_function env f args)"
  "keeps settings (emit name args)"
  "keeps settings (getSigner env a)"
  "keeps settings (contract_method env c m ps cp)"
  "keeps settings (txn_wait env txn)"
  by (auto simp: keeps_def settings_def provider_request_def call_function_def emit_def
      getSigner_def contract_method_def txn_wait_def split: prod.splits jsval.splits)




lemma settings_read_chain_id: "keeps settings (read_chain_id env)"
  unfolding read_chain_id_def
  by (intro keeps_rules keeps_modify preorder_settings settings_prims) (simp add: settings_def)

lemma settings_network_params: "keeps settings (network_params env)"
  unfolding network_params_def chain_hex_def
  by (intro keeps_rules preorder_settings)

lemma settings_disconnectWallet_v1: "keeps settings disconnectWallet_v1"
  unfolding disconnectWallet_v1_def
  by (intro keeps_rules keeps_modify preorder_settings settings_prims) (simp add: settings_def)

lemma settings_detectNetwork_v1: "keeps settings (detectNetwork_v1 env ask)"
  unfolding detectNetwork_v1_def addOrSwitchNetwork_v1_def try_add_v1_def
  by (intro keeps_rules preorder_settings settings_prims settings_read_chain_id
      settings_network_params settings_disconnectWallet_v1)


lemma settings_checkIfAllowed: "keeps settings checkIfAllowed"
  unfolding checkIfAllowed_def
  by (intro keeps_rules preorder_settings settings_prims)

lemma settings_disconnectWallet_v2: "keeps settings (disconnectWallet_v2 env)"
  unfolding disconnectWallet_v2_def
  by (intro keeps_rules keeps_modify preorder_settings settings_prims settings_checkIfAllowed)
    (simp add: settings_def)

lemma settings_revoke:
  "keeps settings (\<lambda>s. case provider_request env revokePermissions s of
     (r, s') \<Rightarrow> (Returned (), keep_pending r s'))"
  by (auto simp: keeps_def settings_def provider_request_def keep_pending_def split: prod.splits)

lemma settings_disconnectWallet_v2_start: "keeps settings (disconnectWallet_v2_start env)"
  unfolding disconnectWallet_v2_start_def
  by (intro keeps_rules preorder_settings settings_checkIfAllowed settings_revoke)

lemma settings_addOrSwitchNetwork_v2: "keeps settings (addOrSwitchNetwork_v2 env)"
  unfolding addOrSwitchNetwork_v2_def try_switch_v2_def try_add_v2_def chain_hex_def
  by (intro keeps_rules preorder_settings settings_prims settings_read_chain_id
      settings_network_params)

lemma settings_detectNetwork_v2: "keeps settings (detectNetwork_v2 env ask)"
  unfolding detectNetwork_v2_def
  by (intro keeps_rules preorder_settings settings_read_chain_id
      settings_addOrSwitchNetwork_v2 settings_disconnectWallet_v2_start)


lemma settings_settle_v2: "keeps settings settle_v2"
  by (auto simp: keeps_def settings_def settle_v2_def disconnectWallet_v2_resume_def
      split: list.splits outcome.splits)

lemma settings_chainChanged_v1: "keeps settings (chainChanged_v1 env)"
  unfolding chainChanged_v1_def
  by (intro keeps_rules preorder_settings settings_prims settings_detectNetwork_v1)

lemma settings_chainChanged_v2: "keeps settings (chainChanged_v2 env)"
  unfolding chainChanged_v2_def
  by (intro keeps_rules preorder_settings settings_prims settings_detectNetwork_v2)

lemma settings_wrapper_call: "keeps settings (wrapper_call env c m ps cp h)"
  unfolding wrapper_call_def
  by (intro keeps_rules preorder_settings settings_prims)

lemma settings_wrapper_send: "keeps settings (wrapper_send env c m ps sp)"
  unfolding wrapper_send_def
  by (intro keeps_rules preorder_settings settings_prims)

section \<open>The listener for \<open>chainChanged\<close>\<close>
















end
